theory Spec2Isabelle
  imports Main "HOL-Library.Word"
begin

section \<open>The Worker binding (src/bun.js/bindings/webcore/JSWorker.cpp)\<close>

text \<open>
  The file binds the native \<open>Worker\<close> object into the JavaScript engine. The model follows
  the binding functions line by line. What the binding calls but does not define (the engine's
  conversions, structured serialization, the native worker) is either a field of the record
  \<open>host\<close>, so that every theorem holds for every behaviour of these collaborators, or a
  definition marked as modelled from the spec.
\<close>

subsection \<open>Errors\<close>

text \<open>
  Every way a binding function leaves with an exception.
  \<^item> \<open>NotEnoughArgumentsError\<close>: \<open>createNotEnoughArgumentsError\<close>;
  \<^item> \<open>ConstructorContextUnavailableError\<close>:
    \<open>throwConstructorScriptExecutionContextUnavailableError\<close> with the interface name;
  \<^item> \<open>VMTypeError\<close>: \<open>throwVMTypeError\<close> without a message;
  \<^item> \<open>VMError msg\<close>: \<open>throwVMError\<close> with a message;
  \<^item> \<open>Exception tag\<close>: an exception raised by a collaborator or by script (a throwing
    accessor, a failing conversion, a failing serialization), identified by a tag.
\<close>

datatype error =
    NotEnoughArgumentsError
  | ConstructorContextUnavailableError string
  | VMTypeError
  | VMError string
  | Exception string

subsection \<open>The native worker and its options\<close>

type_synonym SerializedScriptValue = "8 word list"
type_synonym MessagePort = nat
type_synonym TransferredMessagePort = nat
type_synonym ScriptExecutionContext = nat

text \<open>
  A native string (\<open>WTF::String\<close>): its characters, and whether it is an isolated copy, a
  string whose buffer nothing else refers to. The strings the engine hands out (the value of a
  JavaScript string, the name of a property) share their buffer with the engine's heap and are
  not isolated; \<open>isolatedCopy\<close> below makes the isolated ones.
\<close>

datatype WTFString = WTFString (isolated: bool) (characters: string)

text \<open>
  \<open>WorkerOptions\<close> as the constructor fills it: \<open>options.name\<close> and the members of
  \<open>options.bun\<close> (\<open>bun_mini\<close> is \<open>options.bun.mini\<close>, and so on). A \<open>std::unique_ptr\<close> or
  \<open>RefPtr\<close> member that may be null is an \<open>option\<close>. The \<open>HashMap<String, String>\<close> is a map
  from the characters of a key, by which the table compares keys, to the key and the value it
  stores.
\<close>

record WorkerOptions =
  name :: WTFString
  bun_mini :: bool
  bun_unref :: bool
  bun_data :: "SerializedScriptValue option"
  bun_dataMessagePorts :: "TransferredMessagePort list"
  bun_env :: "(string \<rightharpoonup> WTFString \<times> WTFString) option"
  bun_argv :: "WTFString list option"
  bun_execArgv :: "WTFString list option"

subsection \<open>JavaScript values\<close>

text \<open>
  The values the binding inspects. A number is modelled by its integer value. An object is a
  cell with its \<open>JSType\<close>, the native worker it wraps when it is a \<open>JSWorker\<close>, its named
  properties in insertion order and its indexed elements. A property is enumerable or not,
  and reading it yields a value or throws (an accessor whose getter throws).

  Modelled from the spec: the native \<open>Worker\<close> object. Its class (Worker.h, Worker.cpp) is not
  part of the sources; the binding only calls its methods. The spec's data model gives the
  handle a \<open>clientIdentifier\<close>, the immutable options snapshot, a \<open>keepAlive\<close> flag (default
  true unless explicitly unreffed), the collaborator's reports \<open>isContextStopped\<close> and
  \<open>hasPendingActivity\<close>, a termination request, the FIFO queue of serialized messages, and
  one handler slot for each event name that has been assigned. The identifier is an unsigned
  32-bit integer. The handler slots hold JavaScript values, so the worker is declared
  together with the values.
\<close>

datatype JSType = ObjectType | ArrayType | DerivedArrayType

datatype jsvalue =
    JSUndefined
  | JSNull
  | JSBoolean bool
  | JSNumber int
  | JSString string
  | JSSymbol string
  | JSObject jsobject
and jsobject =
    Obj (jsType: JSType) (wrapped: "Worker option")
        (properties: "(string \<times> jsproperty) list") (elements: "jsvalue list")
and jsproperty =
    Prop (enumerable: bool) (getter: "error + jsvalue")
and Worker =
    Worker (clientIdentifier: "32 word") (workerOptions: WorkerOptions) (keepAlive: bool)
           (isContextStopped: bool) (hasPendingActivity: bool) (terminateRequested: bool)
           (outbox: "(SerializedScriptValue \<times> TransferredMessagePort list) list")
           (eventHandlers: "(string \<times> jsvalue) list")

definition isUndefined :: "jsvalue \<Rightarrow> bool" where
  "isUndefined v = (v = JSUndefined)"

definition isUndefinedOrNull :: "jsvalue \<Rightarrow> bool" where
  "isUndefinedOrNull v = (v = JSUndefined \<or> v = JSNull)"

fun isString :: "jsvalue \<Rightarrow> bool" where
  "isString (JSString s) = True"
| "isString v = False"

fun isObject :: "jsvalue \<Rightarrow> bool" where
  "isObject (JSObject obj) = True"
| "isObject v = False"

text \<open>Strings, symbols and objects are heap cells; the other values are immediate.\<close>

fun isCell :: "jsvalue \<Rightarrow> bool" where
  "isCell (JSString s) = True"
| "isCell (JSSymbol s) = True"
| "isCell (JSObject obj) = True"
| "isCell v = False"

text \<open>\<open>argvValue.asCell()->type() == JSC::JSType::ArrayType\<close>, for a value that is a cell.\<close>

fun cellIsArrayType :: "jsvalue \<Rightarrow> bool" where
  "cellIsArrayType (JSObject obj) = (jsType obj = ArrayType)"
| "cellIsArrayType v = False"

text \<open>\<open>jsDynamicCast<JSObject*>\<close>: the object, or null for anything else.\<close>

fun jsDynamicCast_JSObject :: "jsvalue \<Rightarrow> jsobject option" where
  "jsDynamicCast_JSObject (JSObject obj) = Some obj"
| "jsDynamicCast_JSObject v = None"

text \<open>
  \<open>jsDynamicCast<JSArray*>\<close> on an object: \<open>JSArray\<close> covers the cell types \<open>ArrayType\<close> and
  \<open>DerivedArrayType\<close>.
\<close>

definition jsDynamicCast_JSArray :: "jsobject \<Rightarrow> jsobject option" where
  "jsDynamicCast_JSArray obj =
     (if jsType obj = ArrayType \<or> jsType obj = DerivedArrayType then Some obj else None)"

text \<open>\<open>jsDynamicCast<JSWorker*>\<close>, followed by \<open>wrapped()\<close>.\<close>

fun jsDynamicCast_JSWorker :: "jsvalue \<Rightarrow> Worker option" where
  "jsDynamicCast_JSWorker (JSObject obj) = wrapped obj"
| "jsDynamicCast_JSWorker v = None"

text \<open>\<open>JSValue::toBoolean\<close>; it never throws.\<close>

fun toBoolean :: "jsvalue \<Rightarrow> bool" where
  "toBoolean JSUndefined = False"
| "toBoolean JSNull = False"
| "toBoolean (JSBoolean b) = b"
| "toBoolean (JSNumber n) = (n \<noteq> 0)"
| "toBoolean (JSString s) = (s \<noteq> [])"
| "toBoolean (JSSymbol s) = True"
| "toBoolean (JSObject obj) = True"

text \<open>
  \<open>JSObject::getIfPropertyExists\<close>: the property's value when the property exists, the empty
  \<open>JSValue\<close> (\<open>None\<close>) when it does not or when reading it throws. The second component is the
  exception thrown by the read, if any. Properties inherited from the prototype chain are not
  modelled. The binding calls it with the option names only, none of which is the key of an
  indexed element.
\<close>

definition getIfPropertyExists :: "jsobject \<Rightarrow> string \<Rightarrow> jsvalue option \<times> error option" where
  "getIfPropertyExists obj key =
     (case map_of (properties obj) key of
        None \<Rightarrow> (None, None)
      | Some p \<Rightarrow> (case getter p of Inr v \<Rightarrow> (Some v, None) | Inl e \<Rightarrow> (None, Some e)))"

text \<open>
  The key of an indexed element is its index in decimal digits: the elements of an array
  are its own enumerable properties \<open>"0"\<close>, \<open>"1"\<close>, and so on.
\<close>

fun decimal :: "nat \<Rightarrow> string" where
  "decimal n =
     (if n < 10 then [''0123456789'' ! n]
      else decimal (n div 10) @ [''0123456789'' ! (n mod 10)])"

declare decimal.simps [simp del]

definition indexOfKey :: "jsobject \<Rightarrow> string \<Rightarrow> nat option" where
  "indexOfKey obj key = List.find (\<lambda>i. decimal i = key) [0..<length (elements obj)]"

text \<open>
  \<open>JSObject::get\<close>: the indexed element when the key is the index of one, else the named
  property's value, \<open>undefined\<close> when there is none.
\<close>

definition get :: "jsobject \<Rightarrow> string \<Rightarrow> error + jsvalue" where
  "get obj key =
     (case indexOfKey obj key of
        Some i \<Rightarrow> Inr (elements obj ! i)
      | None \<Rightarrow>
          (case map_of (properties obj) key of None \<Rightarrow> Inr JSUndefined | Some p \<Rightarrow> getter p))"

text \<open>
  \<open>getOwnPropertyNames\<close> with \<open>PropertyNameMode::Strings\<close> and
  \<open>DontEnumPropertiesMode::Exclude\<close>: the keys of the indexed elements in ascending order,
  then the enumerable named keys in insertion order.
\<close>

definition getOwnPropertyNames :: "jsobject \<Rightarrow> string list" where
  "getOwnPropertyNames obj =
     map decimal [0..<length (elements obj)]
     @ map fst (filter (\<lambda>kp. enumerable (snd kp)) (properties obj))"

text \<open>\<open>CallFrame::argument\<close>: the argument, \<open>undefined\<close> beyond the argument count.\<close>

definition argument :: "jsvalue list \<Rightarrow> nat \<Rightarrow> jsvalue" where
  "argument args i = (if i < length args then args ! i else JSUndefined)"

subsection \<open>The engine and the collaborators\<close>

text \<open>
  What the binding calls outside this file. \<open>scriptExecutionContext\<close> is the constructor's
  context (null once torn down) and \<open>m_processEnvObject\<close> the global object's lazily
  initialized \<open>process.env\<close> object. A conversion or a collaborator yields a value or throws.
\<close>

record host =
  scriptExecutionContext :: "ScriptExecutionContext option"
  m_processEnvObject :: "jsobject option"
  convertUSVString :: "jsvalue \<Rightarrow> error + string"
  toWTFStringSlowCase :: "jsvalue \<Rightarrow> error + string"
  hasIteratorMethod :: "jsvalue \<Rightarrow> error + bool"
  convertSequenceOfObjects :: "jsvalue \<Rightarrow> error + jsvalue list"
  staticPropertiesReified :: "jsobject \<Rightarrow> bool"
  reifyAllStaticProperties :: "jsobject \<Rightarrow> error + jsobject"
  SerializedScriptValue_create ::
    "jsvalue \<Rightarrow> jsvalue list \<Rightarrow> error + (SerializedScriptValue \<times> MessagePort list)"
  disentanglePorts :: "MessagePort list \<Rightarrow> error + TransferredMessagePort list"
  WebWorker_create :: "string \<Rightarrow> WorkerOptions \<Rightarrow> error + Worker"
  WebWorker_updatePtr :: "Worker \<Rightarrow> bool"
  setSubclassStructureIfNeeded :: "jsvalue \<Rightarrow> error option"

text \<open>
  \<open>JSValue::toWTFString\<close>: the string of a JavaScript string as it is, the slow case for
  anything else. The string returned shares its buffer with the engine.
\<close>

fun toWTFString :: "host \<Rightarrow> jsvalue \<Rightarrow> error + WTFString" where
  "toWTFString h (JSString s) = Inr (WTFString False s)"
| "toWTFString h v =
     (case toWTFStringSlowCase h v of Inl e \<Rightarrow> Inl e | Inr s \<Rightarrow> Inr (WTFString False s))"

text \<open>\<open>String::isolatedCopy\<close>: a string with the same characters in a buffer of its own.\<close>

definition isolatedCopy :: "WTFString \<Rightarrow> WTFString" where
  "isolatedCopy s = WTFString True (characters s)"

text \<open>
  \<open>HashMap::add\<close>: adds the entry unless a key with the same characters is already present.
\<close>

definition HashMap_add ::
  "(string \<rightharpoonup> WTFString \<times> WTFString) \<Rightarrow> WTFString \<Rightarrow> WTFString
     \<Rightarrow> (string \<rightharpoonup> WTFString \<times> WTFString)" where
  "HashMap_add m k v =
     (case m (characters k) of None \<Rightarrow> m(characters k \<mapsto> (k, v)) | Some old \<Rightarrow> m)"

text \<open>
  \<open>RETURN_IF_EXCEPTION\<close>: leave with the pending exception, if there is one. A throw replaces
  the pending exception (\<open>raise\<close>).
\<close>

definition RETURN_IF_EXCEPTION :: "error option \<Rightarrow> (error + 'a) \<Rightarrow> error + 'a" where
  "RETURN_IF_EXCEPTION pending rest = (case pending of Some e \<Rightarrow> Inl e | None \<Rightarrow> rest)"

definition raise :: "error option \<Rightarrow> error option \<Rightarrow> error option" where
  "raise pending thrown = (case thrown of Some e \<Rightarrow> Some e | None \<Rightarrow> pending)"

subsection \<open>The native worker's methods\<close>

text \<open>\<open>StructuredSerializeOptions\<close>: the dictionary with the one member \<open>transfer\<close>.\<close>

record StructuredSerializeOptions =
  transfer :: "jsvalue list"

text \<open>
  Modelled from the spec: \<open>Worker::setKeepAlive\<close>, missing with the class. \<open>ref()\<close> sets
  \<open>keepAlive = true\<close> and \<open>unref()\<close> sets \<open>keepAlive = false\<close>.
\<close>

fun Worker_setKeepAlive :: "bool \<Rightarrow> Worker \<Rightarrow> Worker" where
  "Worker_setKeepAlive b (Worker identifier options k stopped pending terminating queue handlers) =
     Worker identifier options b stopped pending terminating queue handlers"

text \<open>
  Modelled from the spec: \<open>Worker::terminate\<close>, missing with the class. It requests the
  collaborator to stop the background thread, has no return value and never fails; the thread
  exits asynchronously.
\<close>

fun Worker_terminate :: "Worker \<Rightarrow> Worker" where
  "Worker_terminate (Worker identifier options k stopped pending terminating queue handlers) =
     Worker identifier options k stopped pending True queue handlers"

text \<open>
  Modelled from the spec: \<open>Worker::postMessage\<close>, missing with the class. It serializes the
  message with the named transfer list, a failure propagating to the caller, and enqueues the
  serialized message for asynchronous delivery in FIFO order.
\<close>

fun Worker_enqueue ::
  "SerializedScriptValue \<times> TransferredMessagePort list \<Rightarrow> Worker \<Rightarrow> Worker" where
  "Worker_enqueue m (Worker identifier options k stopped pending terminating queue handlers) =
     Worker identifier options k stopped pending terminating (queue @ [m]) handlers"

definition Worker_postMessage ::
  "host \<Rightarrow> jsvalue \<Rightarrow> StructuredSerializeOptions \<Rightarrow> Worker \<Rightarrow> error + Worker" where
  "Worker_postMessage h message options impl =
     (case SerializedScriptValue_create h message (transfer options) of
        Inl e \<Rightarrow> Inl e
      | Inr (serialized, ports) \<Rightarrow>
          (case disentanglePorts h ports of
             Inl e \<Rightarrow> Inl e
           | Inr transferredPorts \<Rightarrow>
               Inr (Worker_enqueue (serialized, transferredPorts) impl)))"

text \<open>
  Modelled from the spec: \<open>Worker::create\<close>, missing with the class. The collaborator creates
  the native worker with its client identifier, or fails; the new handle keeps the options
  snapshot, and its \<open>keepAlive\<close> is true unless the options say \<open>unref\<close>.
\<close>

fun Worker_adopt :: "WorkerOptions \<Rightarrow> Worker \<Rightarrow> Worker" where
  "Worker_adopt given (Worker identifier options k stopped pending terminating queue handlers) =
     Worker identifier given (\<not> bun_unref given) stopped pending terminating queue handlers"

definition Worker_create ::
  "host \<Rightarrow> ScriptExecutionContext \<Rightarrow> string \<Rightarrow> WorkerOptions \<Rightarrow> error + Worker" where
  "Worker_create h context scriptUrl options =
     (case WebWorker_create h scriptUrl options of
        Inl e \<Rightarrow> Inl e
      | Inr impl \<Rightarrow> Inr (Worker_adopt options impl))"

text \<open>
  \<open>Worker::updatePtr\<close>: the request to the collaborator to start the underlying thread, which
  succeeds or fails.
\<close>

definition Worker_updatePtr :: "host \<Rightarrow> Worker \<Rightarrow> bool" where
  "Worker_updatePtr h impl = WebWorker_updatePtr h impl"

text \<open>
  Modelled from the spec: \<open>eventHandlerAttribute\<close> and \<open>setEventHandlerAttribute\<close> of the
  event target the native worker is, missing with the class. Each event kind has one
  handler slot: reading it before any assignment yields \<open>null\<close>, and setting it replaces
  the previous handler.
\<close>

definition eventHandlerAttribute :: "Worker \<Rightarrow> string \<Rightarrow> jsvalue" where
  "eventHandlerAttribute impl eventName =
     (case map_of (eventHandlers impl) eventName of None \<Rightarrow> JSNull | Some handler \<Rightarrow> handler)"

fun setEventHandlerAttribute :: "Worker \<Rightarrow> string \<Rightarrow> jsvalue \<Rightarrow> Worker" where
  "setEventHandlerAttribute
     (Worker identifier options k stopped pending terminating queue handlers) eventName handler =
     Worker identifier options k stopped pending terminating queue
       ((eventName, handler) # filter (\<lambda>slot. fst slot \<noteq> eventName) handlers)"

subsection \<open>The prototype functions\<close>

text \<open>
  Each body takes \<open>castedThis->wrapped()\<close>, the native worker of the receiver, and returns the
  JavaScript result with the worker as the call leaves it. The bodies of \<open>postMessage\<close> take
  the two arguments the dispatcher hands over: \<open>argument0\<close> is \<open>uncheckedArgument(0)\<close>, and
  \<open>argument1\<close> is \<open>uncheckedArgument(1)\<close> in the first body and \<open>argument(1)\<close> in the second.
\<close>

text \<open>
  \<open>toJS<IDLUndefined>\<close> around a call of the native worker: the call's exception is propagated,
  and otherwise the result is \<open>undefined\<close>.
\<close>

definition toJS_IDLUndefined :: "error + Worker \<Rightarrow> error + jsvalue \<times> Worker" where
  "toJS_IDLUndefined r = (case r of Inl e \<Rightarrow> Inl e | Inr impl' \<Rightarrow> Inr (JSUndefined, impl'))"

text \<open>
  Lines 369 to 448: the getters and setters of \<open>onmessage\<close>, \<open>onmessageerror\<close> and \<open>onerror\<close>,
  on \<open>thisObject.wrapped()\<close>. The event names are those of \<open>eventNames()\<close>. A setter returns
  true.
\<close>

definition jsWorker_onmessageGetter :: "Worker \<Rightarrow> jsvalue" where
  "jsWorker_onmessageGetter impl = eventHandlerAttribute impl ''message''"

definition setJSWorker_onmessageSetter :: "Worker \<Rightarrow> jsvalue \<Rightarrow> bool \<times> Worker" where
  "setJSWorker_onmessageSetter impl handler =
     (True, setEventHandlerAttribute impl ''message'' handler)"

definition jsWorker_onmessageerrorGetter :: "Worker \<Rightarrow> jsvalue" where
  "jsWorker_onmessageerrorGetter impl = eventHandlerAttribute impl ''messageerror''"

definition setJSWorker_onmessageerrorSetter :: "Worker \<Rightarrow> jsvalue \<Rightarrow> bool \<times> Worker" where
  "setJSWorker_onmessageerrorSetter impl handler =
     (True, setEventHandlerAttribute impl ''messageerror'' handler)"

definition jsWorker_onerrorGetter :: "Worker \<Rightarrow> jsvalue" where
  "jsWorker_onerrorGetter impl = eventHandlerAttribute impl ''error''"

definition setJSWorker_onerrorSetter :: "Worker \<Rightarrow> jsvalue \<Rightarrow> bool \<times> Worker" where
  "setJSWorker_onerrorSetter impl handler =
     (True, setEventHandlerAttribute impl ''error'' handler)"

definition jsWorkerPrototypeFunction_terminateBody :: "Worker \<Rightarrow> jsvalue \<times> Worker" where
  "jsWorkerPrototypeFunction_terminateBody impl = (JSUndefined, Worker_terminate impl)"

definition jsWorkerPrototypeFunction_postMessage1Body ::
  "host \<Rightarrow> jsvalue \<Rightarrow> jsvalue \<Rightarrow> Worker \<Rightarrow> error + jsvalue \<times> Worker" where
  "jsWorkerPrototypeFunction_postMessage1Body h argument0 argument1 impl =
     (let message = argument0 in
      case convertSequenceOfObjects h argument1 of
        Inl e \<Rightarrow> Inl e
      | Inr transferList \<Rightarrow>
          toJS_IDLUndefined (Worker_postMessage h message \<lparr>transfer = transferList\<rparr> impl))"

definition jsWorkerPrototypeFunction_postMessage2Body ::
  "host \<Rightarrow> jsvalue \<Rightarrow> jsvalue \<Rightarrow> Worker \<Rightarrow> error + jsvalue \<times> Worker" where
  "jsWorkerPrototypeFunction_postMessage2Body h argument0 argument1 impl =
     (let message = argument0;
          optionsValue = argument1;
          post = (\<lambda>options. toJS_IDLUndefined (Worker_postMessage h message options impl))
      in case jsDynamicCast_JSObject optionsValue of
           None \<Rightarrow> post \<lparr>transfer = []\<rparr>
         | Some optionsObject \<Rightarrow>
             (case getIfPropertyExists optionsObject ''transfer'' of
                (Some transferListValue, thrown) \<Rightarrow>
                  (case convertSequenceOfObjects h transferListValue of
                     Inl e \<Rightarrow> Inl e
                   | Inr transferList \<Rightarrow>
                       RETURN_IF_EXCEPTION thrown (post \<lparr>transfer = transferList\<rparr>))
              | (None, thrown) \<Rightarrow> RETURN_IF_EXCEPTION thrown (post \<lparr>transfer = []\<rparr>)))"

definition jsWorkerPrototypeFunction_postMessageOverloadDispatcher ::
  "host \<Rightarrow> jsvalue list \<Rightarrow> Worker \<Rightarrow> error + jsvalue \<times> Worker" where
  "jsWorkerPrototypeFunction_postMessageOverloadDispatcher h args castedThis =
     (let argsCount = min 2 (length args);
          noOverload =
            (if argsCount < 1 then Inl NotEnoughArgumentsError else Inl VMTypeError)
      in if argsCount = 1 then
           jsWorkerPrototypeFunction_postMessage2Body h (args ! 0) (argument args 1) castedThis
         else if argsCount = 2 then
           (let distinguishingArg = args ! 1 in
            if isUndefined distinguishingArg then
              jsWorkerPrototypeFunction_postMessage2Body h (args ! 0) (argument args 1) castedThis
            else if isUndefinedOrNull distinguishingArg then
              jsWorkerPrototypeFunction_postMessage2Body h (args ! 0) (argument args 1) castedThis
            else
              (case hasIteratorMethod h distinguishingArg of
                 Inl e \<Rightarrow> Inl e
               | Inr success \<Rightarrow>
                   if success then
                     jsWorkerPrototypeFunction_postMessage1Body h (args ! 0) (args ! 1) castedThis
                   else if isObject distinguishingArg then
                     jsWorkerPrototypeFunction_postMessage2Body h (args ! 0) (argument args 1)
                       castedThis
                   else noOverload))
         else noOverload)"

definition jsWorkerPrototypeFunction_refBody :: "Worker \<Rightarrow> jsvalue \<times> Worker" where
  "jsWorkerPrototypeFunction_refBody impl = (JSUndefined, Worker_setKeepAlive True impl)"

definition jsWorkerPrototypeFunction_unrefBody :: "Worker \<Rightarrow> jsvalue \<times> Worker" where
  "jsWorkerPrototypeFunction_unrefBody impl = (JSUndefined, Worker_setKeepAlive False impl)"

text \<open>
  The \<open>threadId\<close> getter. The identifier is unsigned, so \<open>clientIdentifier() - 1\<close> is computed
  modulo \<open>2 ^ 32\<close> and \<open>jsNumber\<close> yields its unsigned value.
\<close>

definition jsWorker_threadIdGetter :: "jsvalue \<Rightarrow> jsvalue" where
  "jsWorker_threadIdGetter thisValue =
     (case jsDynamicCast_JSWorker thisValue of
        None \<Rightarrow> JSUndefined
      | Some impl \<Rightarrow> JSNumber (uint (clientIdentifier impl - 1)))"

text \<open>
  \<open>JSWorkerOwner::isReachableFromOpaqueRoots\<close>, on the native worker of the handle's cell. The
  second argument says whether the caller passed a \<open>reason\<close> pointer; the second result is what
  is stored there.
\<close>

definition JSWorkerOwner_isReachableFromOpaqueRoots ::
  "Worker \<Rightarrow> bool \<Rightarrow> bool \<times> string option" where
  "JSWorkerOwner_isReachableFromOpaqueRoots impl reason =
     (if \<not> isContextStopped impl \<and> hasPendingActivity impl then
        (True, if reason then Some ''ActiveDOMObject with pending activity'' else None)
      else (False, None))"

text \<open>
  Modelled from the spec: the collector's pass over the worker handles; the collector is
  the engine's and not part of the sources. A handle is given with whether anything still
  refers to it. It is destroyed when no external reference exists and it is not to be
  treated as reachable from the roots, which the collector asks of
  \<open>JSWorkerOwner::isReachableFromOpaqueRoots\<close>; every other handle is kept.
\<close>

definition reclaims :: "bool \<Rightarrow> Worker \<Rightarrow> bool" where
  "reclaims referenced impl =
     (\<not> referenced \<and> \<not> fst (JSWorkerOwner_isReachableFromOpaqueRoots impl False))"

definition collect :: "(bool \<times> Worker) list \<Rightarrow> (bool \<times> Worker) list" where
  "collect handles = filter (\<lambda>handle. \<not> reclaims (fst handle) (snd handle)) handles"

subsection \<open>The constructor\<close>

text \<open>
  \<open>JSWorkerDOMConstructor::construct\<close>. While it reads the options it carries the options
  built so far and the throw scope's pending exception: several reads are only checked by a
  later \<open>RETURN_IF_EXCEPTION\<close>. The blocks of the function are defined one by one, in the
  order of the source, and chained by \<open>andThen\<close>; \<open>Inl\<close> is a return with the exception.
\<close>

record construct_state =
  opts :: WorkerOptions
  exc :: "error option"

definition andThen :: "error + 'a \<Rightarrow> ('a \<Rightarrow> error + 'b) \<Rightarrow> error + 'b" where
  "andThen r f = (case r of Inl e \<Rightarrow> Inl e | Inr x \<Rightarrow> f x)"

text \<open>
  \<open>WebCore::propagateException\<close>: throws the collaborator's exception unless one is pending
  already; the caller then returns with the exception that is pending.
\<close>

definition propagateException :: "error option \<Rightarrow> error \<Rightarrow> error" where
  "propagateException pending e = (case pending of Some e0 \<Rightarrow> e0 | None \<Rightarrow> e)"

text \<open>Lines 134 to 139: \<open>name\<close>, taken only when it is a string.\<close>

definition construct_name :: "host \<Rightarrow> jsobject \<Rightarrow> construct_state \<Rightarrow> error + construct_state" where
  "construct_name h optionsObject s =
     (case getIfPropertyExists optionsObject ''name'' of
        (Some nameValue, thrown) \<Rightarrow>
          (let x = raise (exc s) thrown in
           if isString nameValue then
             (case toWTFString h nameValue of
                Inl e \<Rightarrow> Inl e
              | Inr str \<Rightarrow>
                  RETURN_IF_EXCEPTION x (Inr (s\<lparr>opts := (opts s)\<lparr>name := str\<rparr>, exc := x\<rparr>)))
           else Inr (s\<lparr>exc := x\<rparr>))
      | (None, thrown) \<Rightarrow> Inr (s\<lparr>exc := raise (exc s) thrown\<rparr>))"

text \<open>Lines 141 to 144: \<open>smol\<close>.\<close>

definition construct_smol :: "jsobject \<Rightarrow> construct_state \<Rightarrow> error + construct_state" where
  "construct_smol optionsObject s =
     (case getIfPropertyExists optionsObject ''smol'' of
        (Some miniModeValue, thrown) \<Rightarrow>
          (let x = raise (exc s) thrown in
           RETURN_IF_EXCEPTION x
             (Inr (s\<lparr>opts := (opts s)\<lparr>bun_mini := toBoolean miniModeValue\<rparr>, exc := x\<rparr>)))
      | (None, thrown) \<Rightarrow> Inr (s\<lparr>exc := raise (exc s) thrown\<rparr>))"

text \<open>Lines 146 to 149: \<open>ref\<close>.\<close>

definition construct_ref :: "jsobject \<Rightarrow> construct_state \<Rightarrow> error + construct_state" where
  "construct_ref optionsObject s =
     (case getIfPropertyExists optionsObject ''ref'' of
        (Some ref, thrown) \<Rightarrow>
          (let x = raise (exc s) thrown in
           RETURN_IF_EXCEPTION x
             (Inr (s\<lparr>opts := (opts s)\<lparr>bun_unref := \<not> toBoolean ref\<rparr>, exc := x\<rparr>)))
      | (None, thrown) \<Rightarrow> Inr (s\<lparr>exc := raise (exc s) thrown\<rparr>))"

text \<open>
  Lines 151 to 154: \<open>workerData\<close>, and \<open>data\<close> when the first read gave the empty value. The
  result is the value chosen and the pending exception after the reads.
\<close>

definition construct_lookupWorkerData ::
  "jsobject \<Rightarrow> error option \<Rightarrow> jsvalue option \<times> error option" where
  "construct_lookupWorkerData optionsObject pending =
     (case getIfPropertyExists optionsObject ''workerData'' of
        (Some workerData, thrown) \<Rightarrow> (Some workerData, raise pending thrown)
      | (None, thrown) \<Rightarrow>
          (case getIfPropertyExists optionsObject ''data'' of
             (workerData, thrown') \<Rightarrow> (workerData, raise (raise pending thrown) thrown')))"

text \<open>Lines 164 to 170: the loop over the elements of the \<open>transferList\<close> array.\<close>

fun appendTransferList :: "jsvalue list \<Rightarrow> jsvalue list \<Rightarrow> jsvalue list" where
  "appendTransferList [] transferList = transferList"
| "appendTransferList (transferListValue # rest) transferList =
     appendTransferList rest
       (if isObject transferListValue then transferList @ [transferListValue]
        else transferList)"

text \<open>Lines 158 to 173: the transfer list, and the exception thrown by the read, if any.\<close>

definition construct_transferList :: "jsobject \<Rightarrow> jsvalue list \<times> error option" where
  "construct_transferList optionsObject =
     (case getIfPropertyExists optionsObject ''transferList'' of
        (Some transferListValue, thrown) \<Rightarrow>
          (case jsDynamicCast_JSObject transferListValue of
             Some transferListObject \<Rightarrow>
               (case jsDynamicCast_JSArray transferListObject of
                  Some transferListArray \<Rightarrow>
                    (appendTransferList (elements transferListArray) [], thrown)
                | None \<Rightarrow> ([], thrown))
           | None \<Rightarrow> ([], thrown))
      | (None, thrown) \<Rightarrow> ([], thrown))"

text \<open>Lines 175 to 193: serialization of the payload and disentangling of its ports.\<close>

definition construct_serialize ::
  "host \<Rightarrow> jsvalue \<Rightarrow> jsvalue list \<Rightarrow> construct_state \<Rightarrow> error + construct_state" where
  "construct_serialize h workerData transferList s =
     (case SerializedScriptValue_create h workerData transferList of
        Inl e \<Rightarrow> Inl (propagateException (exc s) e)
      | Inr (serialized, ports) \<Rightarrow>
          if ports \<noteq> [] then
            (case disentanglePorts h ports of
               Inl e \<Rightarrow> Inl (propagateException (exc s) e)
             | Inr transferredPorts \<Rightarrow>
                 Inr (s\<lparr>opts := (opts s)\<lparr>bun_data := Some serialized,
                                         bun_dataMessagePorts := transferredPorts\<rparr>\<rparr>))
          else
            Inr (s\<lparr>opts := (opts s)\<lparr>bun_data := Some serialized,
                                    bun_dataMessagePorts := []\<rparr>\<rparr>))"

text \<open>Lines 151 to 194.\<close>

definition construct_workerData ::
  "host \<Rightarrow> jsobject \<Rightarrow> construct_state \<Rightarrow> error + construct_state" where
  "construct_workerData h optionsObject s =
     (case construct_lookupWorkerData optionsObject (exc s) of
        (None, x) \<Rightarrow> Inr (s\<lparr>exc := x\<rparr>)
      | (Some workerData, x) \<Rightarrow>
          (case construct_transferList optionsObject of
             (transferList, thrown) \<Rightarrow>
               construct_serialize h workerData transferList (s\<lparr>exc := raise x thrown\<rparr>)))"

text \<open>
  Lines 219 to 225: the loop over the keys of the environment object. \<open>key.impl()\<close> is the
  string of the property name, shared with the engine.
\<close>

fun captureEnv ::
  "host \<Rightarrow> jsobject \<Rightarrow> string list \<Rightarrow> (string \<rightharpoonup> WTFString \<times> WTFString)
     \<Rightarrow> error + (string \<rightharpoonup> WTFString \<times> WTFString)" where
  "captureEnv h envObject [] env = Inr env"
| "captureEnv h envObject (key # keys) env =
     (case get envObject key of
        Inl e \<Rightarrow> Inl e
      | Inr v \<Rightarrow>
          (case toWTFString h v of
             Inl e \<Rightarrow> Inl e
           | Inr str \<Rightarrow>
               captureEnv h envObject keys
                 (HashMap_add env (isolatedCopy (WTFString False key)) (isolatedCopy str))))"

text \<open>
  Lines 199 to 205: the object the environment is read from. An \<open>env\<close> value that is a cell is
  cast to an object, which gives null for a string or a symbol; any other value, and a missing
  \<open>env\<close>, fall back to the \<open>process.env\<close> object when that is initialized.
\<close>

definition construct_envObject :: "host \<Rightarrow> jsvalue option \<Rightarrow> jsobject option" where
  "construct_envObject h envValue =
     (case envValue of
        Some v \<Rightarrow> if isCell v then jsDynamicCast_JSObject v else m_processEnvObject h
      | None \<Rightarrow> m_processEnvObject h)"

text \<open>Lines 208 to 211: the static properties of the environment object are reified first.\<close>

definition construct_reify :: "host \<Rightarrow> jsobject \<Rightarrow> error + jsobject" where
  "construct_reify h envObject =
     (if \<not> staticPropertiesReified h envObject then reifyAllStaticProperties h envObject
      else Inr envObject)"

text \<open>
  Lines 196 to 228: \<open>env\<close>. The own property names of the objects modelled are read without
  an exception.
\<close>

definition construct_env :: "host \<Rightarrow> jsobject \<Rightarrow> construct_state \<Rightarrow> error + construct_state" where
  "construct_env h optionsObject s =
     (case getIfPropertyExists optionsObject ''env'' of
        (envValue, thrown) \<Rightarrow>
          RETURN_IF_EXCEPTION (raise (exc s) thrown)
            (case construct_envObject h envValue of
               None \<Rightarrow> Inr s
             | Some envObject \<Rightarrow>
                 (case construct_reify h envObject of
                    Inl e \<Rightarrow> Inl e
                  | Inr reified \<Rightarrow>
                      (case captureEnv h reified (getOwnPropertyNames reified) Map.empty of
                         Inl e \<Rightarrow> Inl e
                       | Inr env \<Rightarrow> Inr (s\<lparr>opts := (opts s)\<lparr>bun_env := Some env\<rparr>\<rparr>)))))"

text \<open>
  The callback of \<open>forEachInIterable\<close> in lines 234 to 240 and 248 to 254, run over the
  elements of the array: each element is converted to a string and appended; at the first
  conversion that throws the iteration stops, with what was appended so far.
\<close>

fun appendStrings ::
  "host \<Rightarrow> jsvalue list \<Rightarrow> WTFString list \<Rightarrow> WTFString list \<times> error option" where
  "appendStrings h [] out = (out, None)"
| "appendStrings h (nextValue # rest) out =
     (case toWTFString h nextValue of
        Inl e \<Rightarrow> (out, Some e)
      | Inr str \<Rightarrow> appendStrings h rest (out @ [isolatedCopy str]))"

fun forEachInIterable_toStrings :: "host \<Rightarrow> jsvalue \<Rightarrow> WTFString list \<times> error option" where
  "forEachInIterable_toStrings h (JSObject arr) = appendStrings h (elements arr) []"
| "forEachInIterable_toStrings h v = ([], None)"

text \<open>Lines 230 to 242: \<open>argv\<close>.\<close>

definition construct_argv :: "host \<Rightarrow> jsobject \<Rightarrow> construct_state \<Rightarrow> error + construct_state" where
  "construct_argv h optionsObject s =
     (case getIfPropertyExists optionsObject ''argv'' of
        (argvValue, thrown) \<Rightarrow>
          RETURN_IF_EXCEPTION (raise (exc s) thrown)
            (case argvValue of
               Some v \<Rightarrow>
                 if isCell v \<and> cellIsArrayType v then
                   (case forEachInIterable_toStrings h v of
                      (argv, thrown') \<Rightarrow>
                        Inr (s\<lparr>opts := (opts s)\<lparr>bun_argv := Some argv\<rparr>, exc := thrown'\<rparr>))
                 else Inr s
             | None \<Rightarrow> Inr s))"

text \<open>Lines 244 to 256: \<open>execArgv\<close>.\<close>

definition construct_execArgv ::
  "host \<Rightarrow> jsobject \<Rightarrow> construct_state \<Rightarrow> error + construct_state" where
  "construct_execArgv h optionsObject s =
     (case getIfPropertyExists optionsObject ''execArgv'' of
        (execArgvValue, thrown) \<Rightarrow>
          RETURN_IF_EXCEPTION (raise (exc s) thrown)
            (case execArgvValue of
               Some v \<Rightarrow>
                 if isCell v \<and> cellIsArrayType v then
                   (case forEachInIterable_toStrings h v of
                      (execArgv, thrown') \<Rightarrow>
                        Inr (s\<lparr>opts := (opts s)\<lparr>bun_execArgv := Some execArgv\<rparr>,
                               exc := thrown'\<rparr>))
                 else Inr s
             | None \<Rightarrow> Inr s))"

text \<open>Lines 130 and 131: \<open>WorkerOptions {}\<close> with \<open>unref\<close> set to false.\<close>

definition initialOptions :: WorkerOptions where
  "initialOptions =
     \<lparr>name = WTFString False [], bun_mini = False, bun_unref = False, bun_data = None,
      bun_dataMessagePorts = [], bun_env = None, bun_argv = None, bun_execArgv = None\<rparr>"

text \<open>
  Lines 130 to 259: the options of the call, from its second argument. Nothing is read unless
  that argument is an object.
\<close>

definition construct_options :: "host \<Rightarrow> jsvalue \<Rightarrow> error + WorkerOptions" where
  "construct_options h argument1 =
     (case jsDynamicCast_JSObject argument1 of
        None \<Rightarrow> Inr initialOptions
      | Some optionsObject \<Rightarrow>
          andThen
            (andThen
              (andThen
                (andThen
                  (andThen
                    (andThen
                      (andThen
                        (andThen (Inr \<lparr>opts = initialOptions, exc = None\<rparr>)
                          (construct_name h optionsObject))
                        (construct_smol optionsObject))
                      (construct_ref optionsObject))
                    (construct_workerData h optionsObject))
                  (construct_env h optionsObject))
                (construct_argv h optionsObject))
              (construct_execArgv h optionsObject))
            (\<lambda>s. RETURN_IF_EXCEPTION (exc s) (Inr (opts s))))"

text \<open>\<open>toJSNewlyCreated\<close>: the new \<open>JSWorker\<close> cell wrapping the native worker.\<close>

definition toJSNewlyCreated :: "Worker \<Rightarrow> jsvalue" where
  "toJSNewlyCreated impl = JSObject (Obj ObjectType (Some impl) [] [])"

text \<open>Lines 114 to 278.\<close>

definition construct :: "host \<Rightarrow> jsvalue list \<Rightarrow> error + jsvalue" where
  "construct h args =
     (if length args < 1 then Inl NotEnoughArgumentsError
      else
        case scriptExecutionContext h of
          None \<Rightarrow> Inl (ConstructorContextUnavailableError ''Worker'')
        | Some context \<Rightarrow>
            (case convertUSVString h (args ! 0) of
               Inl e \<Rightarrow> Inl e
             | Inr scriptUrl \<Rightarrow>
                 (case construct_options h (argument args 1) of
                    Inl e \<Rightarrow> Inl e
                  | Inr options \<Rightarrow>
                      (case Worker_create h context scriptUrl options of
                         Inl e \<Rightarrow> Inl e
                       | Inr impl \<Rightarrow>
                           (let jsValue = toJSNewlyCreated impl in
                            if \<not> Worker_updatePtr h impl then
                              Inl (VMError ''Failed to start Worker thread'')
                            else
                              (case setSubclassStructureIfNeeded h jsValue of
                                 Some e \<Rightarrow> Inl e
                               | None \<Rightarrow> Inr jsValue))))))"

subsection \<open>An example host\<close>

text \<open>
  A host for the concrete instances below: a context whose \<open>process.env\<close> holds \<open>HOME\<close>,
  string conversion of the primitive values (a symbol throws a \<open>TypeError\<close>), arrays as the
  only iterable objects and the only sequences, a serialization that rejects symbols, writes
  a number as one byte and hands over one port, numbered from 0, for each object of the
  transfer list, and a collaborator that creates the worker with identifier 2 and starts its
  thread.
\<close>

text \<open>An object literal with enumerable data properties, and an array literal.\<close>

definition objectOf :: "(string \<times> jsvalue) list \<Rightarrow> jsobject" where
  "objectOf props = Obj ObjectType None (map (\<lambda>(key, v). (key, Prop True (Inr v))) props) []"

definition arrayOf :: "jsvalue list \<Rightarrow> jsobject" where
  "arrayOf vs = Obj ArrayType None [] vs"

definition exampleWorker :: Worker where
  "exampleWorker = Worker 2 initialOptions True False True False [] []"

definition exampleHost :: host where
  "exampleHost =
     \<lparr>scriptExecutionContext = Some 1,
      m_processEnvObject =
        Some (Obj ObjectType None [(''HOME'', Prop True (Inr (JSString ''/root'')))] []),
      convertUSVString =
        (\<lambda>v. case v of JSString s \<Rightarrow> Inr s | _ \<Rightarrow> Inl (Exception ''ToString'')),
      toWTFStringSlowCase =
        (\<lambda>v. case v of
           JSUndefined \<Rightarrow> Inr ''undefined''
         | JSNull \<Rightarrow> Inr ''null''
         | JSBoolean b \<Rightarrow> Inr (if b then ''true'' else ''false'')
         | JSNumber n \<Rightarrow>
             Inr (if n < 0 then CHR ''-'' # decimal (nat (- n)) else decimal (nat n))
         | JSString s \<Rightarrow> Inr s
         | JSSymbol s \<Rightarrow> Inl VMTypeError
         | JSObject obj \<Rightarrow> Inr ''[object Object]''),
      hasIteratorMethod =
        (\<lambda>v. case v of JSObject obj \<Rightarrow> Inr (jsType obj \<noteq> ObjectType) | _ \<Rightarrow> Inr False),
      convertSequenceOfObjects =
        (\<lambda>v. case v of
           JSObject obj \<Rightarrow>
             if jsType obj \<noteq> ObjectType \<and> list_all isObject (elements obj)
             then Inr (elements obj) else Inl VMTypeError
         | _ \<Rightarrow> Inl VMTypeError),
      staticPropertiesReified = (\<lambda>obj. True),
      reifyAllStaticProperties = (\<lambda>obj. Inr obj),
      SerializedScriptValue_create =
        (\<lambda>v transferList. case v of
           JSSymbol s \<Rightarrow> Inl (Exception ''DataCloneError'')
         | JSNumber n \<Rightarrow> Inr ([word_of_int n], [0..<length transferList])
         | _ \<Rightarrow> Inr ([], [0..<length transferList])),
      disentanglePorts = (\<lambda>ports. Inr ports),
      WebWorker_create = (\<lambda>scriptUrl options. Inr exampleWorker),
      WebWorker_updatePtr = (\<lambda>impl. True),
      setSubclassStructureIfNeeded = (\<lambda>v. None)\<rparr>"

section \<open>Properties\<close>

subsection \<open>The blocks of the constructor\<close>

lemma andThen_Inr: "andThen r f = Inr y \<Longrightarrow> \<exists>x. r = Inr x \<and> f x = Inr y"
  by (cases r) (simp_all add: andThen_def)

lemma construct_name_frame:
  "construct_name h obj s = Inr s' \<Longrightarrow>
     bun_unref (opts s') = bun_unref (opts s) \<and> bun_env (opts s') = bun_env (opts s) \<and>
     bun_data (opts s') = bun_data (opts s) \<and>
     bun_dataMessagePorts (opts s') = bun_dataMessagePorts (opts s) \<and>
     bun_argv (opts s') = bun_argv (opts s) \<and> bun_execArgv (opts s') = bun_execArgv (opts s)"
  by (auto simp: construct_name_def RETURN_IF_EXCEPTION_def Let_def
      split: prod.splits option.splits sum.splits if_splits)

lemma construct_smol_frame:
  "construct_smol obj s = Inr s' \<Longrightarrow>
     bun_unref (opts s') = bun_unref (opts s) \<and> bun_env (opts s') = bun_env (opts s) \<and>
     bun_data (opts s') = bun_data (opts s) \<and>
     bun_dataMessagePorts (opts s') = bun_dataMessagePorts (opts s) \<and>
     bun_argv (opts s') = bun_argv (opts s) \<and> bun_execArgv (opts s') = bun_execArgv (opts s)"
  by (auto simp: construct_smol_def RETURN_IF_EXCEPTION_def Let_def
      split: prod.splits option.splits sum.splits if_splits)

lemma construct_ref_frame:
  "construct_ref obj s = Inr s' \<Longrightarrow>
     bun_env (opts s') = bun_env (opts s) \<and> bun_data (opts s') = bun_data (opts s) \<and>
     bun_dataMessagePorts (opts s') = bun_dataMessagePorts (opts s) \<and>
     bun_argv (opts s') = bun_argv (opts s) \<and> bun_execArgv (opts s') = bun_execArgv (opts s)"
  by (auto simp: construct_ref_def RETURN_IF_EXCEPTION_def Let_def
      split: prod.splits option.splits sum.splits if_splits)

lemma construct_ref_result:
  "construct_ref obj s = Inr s' \<Longrightarrow>
     bun_unref (opts s') = (case fst (getIfPropertyExists obj ''ref'') of
                  Some r \<Rightarrow> \<not> toBoolean r
                | None \<Rightarrow> bun_unref (opts s))"
  by (auto simp: construct_ref_def RETURN_IF_EXCEPTION_def Let_def
      split: prod.splits option.splits sum.splits if_splits)

lemma construct_serialize_frame:
  "construct_serialize h v transferList s = Inr s' \<Longrightarrow>
     exc s' = exc s \<and>
     bun_unref (opts s') = bun_unref (opts s) \<and> bun_env (opts s') = bun_env (opts s) \<and>
     bun_argv (opts s') = bun_argv (opts s) \<and> bun_execArgv (opts s') = bun_execArgv (opts s)"
  by (auto simp: construct_serialize_def split: prod.splits sum.splits if_splits)

lemma construct_workerData_frame:
  "construct_workerData h obj s = Inr s' \<Longrightarrow>
     bun_unref (opts s') = bun_unref (opts s) \<and> bun_env (opts s') = bun_env (opts s) \<and>
     bun_argv (opts s') = bun_argv (opts s) \<and> bun_execArgv (opts s') = bun_execArgv (opts s)"
proof -
  assume a: "construct_workerData h obj s = Inr s'"
  obtain w x where l: "construct_lookupWorkerData obj (exc s) = (w, x)"
    by (cases "construct_lookupWorkerData obj (exc s)")
  obtain tl thrown where t: "construct_transferList obj = (tl, thrown)"
    by (cases "construct_transferList obj")
  show ?thesis
  proof (cases w)
    case None
    with a l show ?thesis by (auto simp add: construct_workerData_def)
  next
    case (Some v)
    with a l t have "construct_serialize h v tl (s\<lparr>exc := raise x thrown\<rparr>) = Inr s'"
      by (simp add: construct_workerData_def)
    from construct_serialize_frame [OF this] show ?thesis by simp
  qed
qed

lemma construct_env_frame:
  "construct_env h obj s = Inr s' \<Longrightarrow>
     exc s = None \<and> exc s' = None \<and>
     bun_unref (opts s') = bun_unref (opts s) \<and> bun_data (opts s') = bun_data (opts s) \<and>
     bun_dataMessagePorts (opts s') = bun_dataMessagePorts (opts s) \<and>
     bun_argv (opts s') = bun_argv (opts s) \<and> bun_execArgv (opts s') = bun_execArgv (opts s)"
proof -
  assume a: "construct_env h obj s = Inr s'"
  obtain envValue thrown where l: "getIfPropertyExists obj ''env'' = (envValue, thrown)"
    by (cases "getIfPropertyExists obj ''env''")
  from a l have n: "raise (exc s) thrown = None"
    by (simp add: construct_env_def RETURN_IF_EXCEPTION_def split: option.splits)
  then have e: "exc s = None"
    by (simp add: raise_def split: option.splits)
  from a l n have "s' = s \<or> (\<exists>env. s' = s\<lparr>opts := (opts s)\<lparr>bun_env := Some env\<rparr>\<rparr>)"
    by (auto simp add: construct_env_def RETURN_IF_EXCEPTION_def
        split: option.splits sum.splits)
  with e show ?thesis by auto
qed

lemma construct_argv_frame:
  "construct_argv h obj s = Inr s' \<Longrightarrow>
     bun_unref (opts s') = bun_unref (opts s) \<and> bun_env (opts s') = bun_env (opts s) \<and>
     bun_data (opts s') = bun_data (opts s) \<and>
     bun_dataMessagePorts (opts s') = bun_dataMessagePorts (opts s) \<and>
     bun_execArgv (opts s') = bun_execArgv (opts s)"
  by (auto simp: construct_argv_def RETURN_IF_EXCEPTION_def
      split: prod.splits option.splits if_splits)

lemma construct_execArgv_frame:
  "construct_execArgv h obj s = Inr s' \<Longrightarrow>
     bun_unref (opts s') = bun_unref (opts s) \<and> bun_env (opts s') = bun_env (opts s) \<and>
     bun_data (opts s') = bun_data (opts s) \<and>
     bun_dataMessagePorts (opts s') = bun_dataMessagePorts (opts s) \<and>
     bun_argv (opts s') = bun_argv (opts s)"
  by (auto simp: construct_execArgv_def RETURN_IF_EXCEPTION_def
      split: prod.splits option.splits if_splits)

text \<open>A successful reading of the options, block by block.\<close>

lemma construct_options_stages:
  assumes "construct_options h (JSObject obj) = Inr options"
  obtains s1 s2 s3 s4 s5 s6 s7 where
    "construct_name h obj \<lparr>opts = initialOptions, exc = None\<rparr> = Inr s1"
    "construct_smol obj s1 = Inr s2"
    "construct_ref obj s2 = Inr s3"
    "construct_workerData h obj s3 = Inr s4"
    "construct_env h obj s4 = Inr s5"
    "construct_argv h obj s5 = Inr s6"
    "construct_execArgv h obj s6 = Inr s7"
    "exc s7 = None" "options = opts s7"
proof -
  let ?c1 = "andThen (Inr \<lparr>opts = initialOptions, exc = None\<rparr>) (construct_name h obj)"
  let ?c2 = "andThen ?c1 (construct_smol obj)"
  let ?c3 = "andThen ?c2 (construct_ref obj)"
  let ?c4 = "andThen ?c3 (construct_workerData h obj)"
  let ?c5 = "andThen ?c4 (construct_env h obj)"
  let ?c6 = "andThen ?c5 (construct_argv h obj)"
  let ?c7 = "andThen ?c6 (construct_execArgv h obj)"
  from assms have "andThen ?c7 (\<lambda>s. RETURN_IF_EXCEPTION (exc s) (Inr (opts s))) = Inr options"
    by (simp add: construct_options_def)
  from andThen_Inr [OF this] obtain s7 where a7: "?c7 = Inr s7"
    and fin: "RETURN_IF_EXCEPTION (exc s7) (Inr (opts s7)) = Inr options"
    by (elim exE conjE)
  from andThen_Inr [OF a7] obtain s6 where a6: "?c6 = Inr s6"
    and r7: "construct_execArgv h obj s6 = Inr s7"
    by (elim exE conjE)
  from andThen_Inr [OF a6] obtain s5 where a5: "?c5 = Inr s5"
    and r6: "construct_argv h obj s5 = Inr s6"
    by (elim exE conjE)
  from andThen_Inr [OF a5] obtain s4 where a4: "?c4 = Inr s4"
    and r5: "construct_env h obj s4 = Inr s5"
    by (elim exE conjE)
  from andThen_Inr [OF a4] obtain s3 where a3: "?c3 = Inr s3"
    and r4: "construct_workerData h obj s3 = Inr s4"
    by (elim exE conjE)
  from andThen_Inr [OF a3] obtain s2 where a2: "?c2 = Inr s2"
    and r3: "construct_ref obj s2 = Inr s3"
    by (elim exE conjE)
  from andThen_Inr [OF a2] obtain s1 where a1: "?c1 = Inr s1"
    and r2: "construct_smol obj s1 = Inr s2"
    by (elim exE conjE)
  from a1 have r1: "construct_name h obj \<lparr>opts = initialOptions, exc = None\<rparr> = Inr s1"
    by (simp add: andThen_def)
  from fin have f: "exc s7 = None" "options = opts s7"
    by (auto simp: RETURN_IF_EXCEPTION_def split: option.splits)
  show thesis
    by (rule that [OF r1 r2 r3 r4 r5 r6 r7 f])
qed

lemma construct_options_not_object:
  "jsDynamicCast_JSObject argument1 = None \<Longrightarrow> construct_options h argument1 = Inr initialOptions"
  by (simp add: construct_options_def)

lemma jsDynamicCast_JSObject_Some:
  "jsDynamicCast_JSObject v = Some obj \<Longrightarrow> v = JSObject obj"
  by (cases v) auto

lemma construct_options_unref:
  assumes "construct_options h argument1 = Inr options"
  shows "bun_unref options =
    (\<exists>obj r. argument1 = JSObject obj \<and> fst (getIfPropertyExists obj ''ref'') = Some r
       \<and> \<not> toBoolean r)"
proof (cases "jsDynamicCast_JSObject argument1")
  case None
  then have "\<And>obj. argument1 \<noteq> JSObject obj" by auto
  moreover from None assms have "options = initialOptions"
    by (simp add: construct_options_def)
  ultimately show ?thesis by (simp add: initialOptions_def)
next
  case (Some obj)
  then have a: "argument1 = JSObject obj" by (rule jsDynamicCast_JSObject_Some)
  from assms [unfolded a] obtain s1 s2 s3 s4 s5 s6 s7 where st:
    "construct_name h obj \<lparr>opts = initialOptions, exc = None\<rparr> = Inr s1"
    "construct_smol obj s1 = Inr s2"
    "construct_ref obj s2 = Inr s3"
    "construct_workerData h obj s3 = Inr s4"
    "construct_env h obj s4 = Inr s5"
    "construct_argv h obj s5 = Inr s6"
    "construct_execArgv h obj s6 = Inr s7"
    "exc s7 = None" "options = opts s7"
    by (rule construct_options_stages)
  have u2: "bun_unref (opts s2) = False"
    using construct_name_frame [OF st(1)] construct_smol_frame [OF st(2)]
    by (simp add: initialOptions_def)
  have u3: "bun_unref (opts s3) =
      (case fst (getIfPropertyExists obj ''ref'') of Some r \<Rightarrow> \<not> toBoolean r | None \<Rightarrow> False)"
    using construct_ref_result [OF st(3)] u2 by (simp split: option.splits)
  have "bun_unref (opts s7) = bun_unref (opts s3)"
    using construct_workerData_frame [OF st(4)] construct_env_frame [OF st(5)]
      construct_argv_frame [OF st(6)] construct_execArgv_frame [OF st(7)]
    by simp
  with u3 st(9) a show ?thesis by (simp split: option.splits)
qed

lemma construct_Inr:
  assumes "construct h args = Inr jsValue"
  shows "\<exists>ctx scriptUrl options impl.
    args \<noteq> [] \<and> scriptExecutionContext h = Some ctx \<and>
    convertUSVString h (args ! 0) = Inr scriptUrl \<and>
    construct_options h (argument args 1) = Inr options \<and>
    Worker_create h ctx scriptUrl options = Inr impl \<and>
    Worker_updatePtr h impl \<and> jsValue = toJSNewlyCreated impl"
  using assms
  by (auto simp: construct_def Let_def split: if_splits option.splits sum.splits)





lemma construct_lookupWorkerData_snd:
  assumes "snd (getIfPropertyExists obj ''workerData'') = None"
    and "snd (getIfPropertyExists obj ''data'') = None"
  shows "snd (construct_lookupWorkerData obj pending) = pending"
  using assms
  by (auto simp: construct_lookupWorkerData_def raise_def split: prod.splits option.splits)

lemma construct_transferList_snd:
  "snd (construct_transferList obj) = snd (getIfPropertyExists obj ''transferList'')"
  by (simp add: construct_transferList_def split: prod.splits option.splits)

lemma construct_workerData_serialize:
  assumes "exc s = None"
    and "snd (getIfPropertyExists obj ''workerData'') = None"
    and "snd (getIfPropertyExists obj ''data'') = None"
    and "snd (getIfPropertyExists obj ''transferList'') = None"
    and "fst (construct_lookupWorkerData obj None) = Some workerData"
  shows "construct_workerData h obj s =
    construct_serialize h workerData (fst (construct_transferList obj)) s"
proof -
  from assms(1,2,3,5) have l: "construct_lookupWorkerData obj (exc s) = (Some workerData, None)"
    using construct_lookupWorkerData_snd [of obj None]
    by (cases "construct_lookupWorkerData obj None") simp
  obtain tl thrown where t: "construct_transferList obj = (tl, thrown)"
    by (cases "construct_transferList obj")
  with assms(4) construct_transferList_snd [of obj] have "thrown = None" by simp
  moreover from assms(1) have eq: "s\<lparr>exc := None\<rparr> = s" by (cases s) simp
  ultimately show ?thesis
    using l t by (simp add: construct_workerData_def raise_def assms(1) eq)
qed








lemma appendTransferList_filter:
  "appendTransferList vs transferList = transferList @ filter isObject vs"
  by (induction vs arbitrary: transferList) simp_all


lemma appendStrings_None:
  "appendStrings h vs out = (res, None) \<Longrightarrow>
     \<exists>strs. map (toWTFString h) vs = map Inr strs \<and> res = out @ map isolatedCopy strs"
proof (induction vs arbitrary: out)
  case Nil
  then show ?case by simp
next
  case (Cons v vs)
  show ?case
  proof (cases "toWTFString h v")
    case (Inl e)
    with Cons.prems show ?thesis by simp
  next
    case (Inr str)
    with Cons.prems have "appendStrings h vs (out @ [isolatedCopy str]) = (res, None)"
      by simp
    from Cons.IH [OF this] obtain strs where
      "map (toWTFString h) vs = map Inr strs"
      "res = (out @ [isolatedCopy str]) @ map isolatedCopy strs"
      by blast
    with Inr have "map (toWTFString h) (v # vs) = map Inr (str # strs)
        \<and> res = out @ map isolatedCopy (str # strs)"
      by simp
    then show ?thesis by blast
  qed
qed

lemma forEachInIterable_toStrings_None:
  assumes "forEachInIterable_toStrings h v = (res, None)" and "isCell v \<and> cellIsArrayType v"
  shows "\<exists>arr strs. v = JSObject arr \<and> jsType arr = ArrayType \<and>
           map (toWTFString h) (elements arr) = map Inr strs \<and> res = map isolatedCopy strs"
proof (cases v)
  case (JSObject arr)
  with assms have "appendStrings h (elements arr) [] = (res, None)" "jsType arr = ArrayType"
    by simp_all
  with appendStrings_None [of h "elements arr" "[]" res] JSObject show ?thesis by auto
qed (use assms in simp_all)

lemma construct_argv_result:
  assumes "construct_argv h obj s = Inr s'"
  shows "exc s = None \<and>
    (case fst (getIfPropertyExists obj ''argv'') of
       Some v \<Rightarrow>
         if isCell v \<and> cellIsArrayType v then
           bun_argv (opts s') = Some (fst (forEachInIterable_toStrings h v)) \<and>
           exc s' = snd (forEachInIterable_toStrings h v)
         else s' = s
     | None \<Rightarrow> s' = s)"
proof -
  obtain argvValue thrown where l: "getIfPropertyExists obj ''argv'' = (argvValue, thrown)"
    by (cases "getIfPropertyExists obj ''argv''")
  from assms l have n: "raise (exc s) thrown = None"
    by (simp add: construct_argv_def RETURN_IF_EXCEPTION_def split: option.splits)
  then have e: "exc s = None"
    by (simp add: raise_def split: option.splits)
  from assms l n e show ?thesis
    by (auto simp: construct_argv_def RETURN_IF_EXCEPTION_def
        split: option.splits prod.splits if_splits)
qed

lemma construct_execArgv_result:
  assumes "construct_execArgv h obj s = Inr s'"
  shows "exc s = None \<and>
    (case fst (getIfPropertyExists obj ''execArgv'') of
       Some v \<Rightarrow>
         if isCell v \<and> cellIsArrayType v then
           bun_execArgv (opts s') = Some (fst (forEachInIterable_toStrings h v)) \<and>
           exc s' = snd (forEachInIterable_toStrings h v)
         else s' = s
     | None \<Rightarrow> s' = s)"
proof -
  obtain argvValue thrown where l: "getIfPropertyExists obj ''execArgv'' = (argvValue, thrown)"
    by (cases "getIfPropertyExists obj ''execArgv''")
  from assms l have n: "raise (exc s) thrown = None"
    by (simp add: construct_execArgv_def RETURN_IF_EXCEPTION_def split: option.splits)
  then have e: "exc s = None"
    by (simp add: raise_def split: option.splits)
  from assms l n e show ?thesis
    by (auto simp: construct_execArgv_def RETURN_IF_EXCEPTION_def
        split: option.splits prod.splits if_splits)
qed

lemma captured_strings:
  assumes "if isCell v \<and> cellIsArrayType v
           then captured = Some (fst (forEachInIterable_toStrings h v))
             \<and> snd (forEachInIterable_toStrings h v) = None
           else captured = None"
  shows "if isCell v \<and> cellIsArrayType v
         then (\<exists>arr strs. v = JSObject arr \<and> jsType arr = ArrayType \<and>
                 map (toWTFString h) (elements arr) = map Inr strs \<and>
                 captured = Some (map isolatedCopy strs))
         else captured = None"
proof (cases "isCell v \<and> cellIsArrayType v")
  case True
  with assms have "forEachInIterable_toStrings h v = (fst (forEachInIterable_toStrings h v), None)"
    by (metis prod.collapse)
  from forEachInIterable_toStrings_None [OF this True] assms True show ?thesis by auto
next
  case False
  with assms show ?thesis by simp
qed

lemma captureEnv_result:
  "captureEnv h envObject keys env0 = Inr env \<Longrightarrow>
     dom env = dom env0 \<union> set keys \<and> (\<forall>k \<in> dom env0. env k = env0 k) \<and>
     (\<forall>k \<in> set keys. k \<notin> dom env0 \<longrightarrow>
        (\<exists>v str. get envObject k = Inr v \<and> toWTFString h v = Inr str \<and>
           env k = Some (isolatedCopy (WTFString False k), isolatedCopy str)))"
proof (induction keys arbitrary: env0)
  case Nil
  then show ?case by simp
next
  case (Cons key keys)
  from Cons.prems obtain v str where
    g: "get envObject key = Inr v" and c: "toWTFString h v = Inr str"
    and r: "captureEnv h envObject keys
      (HashMap_add env0 (isolatedCopy (WTFString False key)) (isolatedCopy str)) = Inr env"
    by (auto split: sum.splits)
  let ?env1 = "HashMap_add env0 (isolatedCopy (WTFString False key)) (isolatedCopy str)"
  have d1: "dom ?env1 = insert key (dom env0)"
    by (auto simp: HashMap_add_def isolatedCopy_def split: option.splits)
  have k1: "\<And>k. k \<in> dom env0 \<Longrightarrow> ?env1 k = env0 k"
    by (auto simp: HashMap_add_def isolatedCopy_def split: option.splits)
  have n1: "key \<notin> dom env0 \<Longrightarrow>
      ?env1 key = Some (isolatedCopy (WTFString False key), isolatedCopy str)"
    by (auto simp: HashMap_add_def isolatedCopy_def split: option.splits)
  from Cons.IH [OF r] have ih:
    "dom env = dom ?env1 \<union> set keys"
    "\<And>k. k \<in> dom ?env1 \<Longrightarrow> env k = ?env1 k"
    "\<And>k. k \<in> set keys \<Longrightarrow> k \<notin> dom ?env1 \<Longrightarrow>
        \<exists>v str. get envObject k = Inr v \<and> toWTFString h v = Inr str \<and>
          env k = Some (isolatedCopy (WTFString False k), isolatedCopy str)"
    by blast+
  have "dom env = dom env0 \<union> set (key # keys)"
    using ih(1) d1 by auto
  moreover have "\<forall>k \<in> dom env0. env k = env0 k"
    using ih(2) d1 k1 by auto
  moreover have "\<exists>v str. get envObject k = Inr v \<and> toWTFString h v = Inr str \<and>
      env k = Some (isolatedCopy (WTFString False k), isolatedCopy str)"
    if "k \<in> set (key # keys)" "k \<notin> dom env0" for k
  proof (cases "k = key")
    case True
    with that(2) n1 ih(2) [of key] d1 g c show ?thesis by auto
  next
    case False
    with that d1 have "k \<in> set keys" "k \<notin> dom ?env1" by auto
    from ih(3) [OF this] show ?thesis .
  qed
  ultimately show ?case by blast
qed

lemma construct_env_result:
  assumes "construct_env h obj s = Inr s'"
  shows "case construct_envObject h (fst (getIfPropertyExists obj ''env'')) of
      None \<Rightarrow> bun_env (opts s') = bun_env (opts s)
    | Some envObject \<Rightarrow>
        (\<exists>reified env. construct_reify h envObject = Inr reified \<and>
           captureEnv h reified (getOwnPropertyNames reified) Map.empty = Inr env \<and>
           bun_env (opts s') = Some env)"
proof -
  obtain envValue thrown where l: "getIfPropertyExists obj ''env'' = (envValue, thrown)"
    by (cases "getIfPropertyExists obj ''env''")
  from assms l have n: "raise (exc s) thrown = None"
    by (simp add: construct_env_def RETURN_IF_EXCEPTION_def split: option.splits)
  from assms l n show ?thesis
    by (auto simp: construct_env_def RETURN_IF_EXCEPTION_def split: option.splits sum.splits)
qed

lemma captured_env:
  assumes "captureEnv h reified keys Map.empty = Inr env"
  shows "dom env = set keys \<and>
     (\<forall>key \<in> set keys.
        \<exists>v str. get reified key = Inr v \<and> toWTFString h v = Inr str \<and>
          env key = Some (isolatedCopy (WTFString False key), isolatedCopy str))"
  using captureEnv_result [OF assms] by simp

text \<open>
  A table whose keys are those of a list is the one got by writing its entries in the order
  of the list, a later write replacing an earlier one.
\<close>

lemma captured_env_writes:
  assumes "dom env = set keys"
  shows "env = map_of (rev (map (\<lambda>key. (key, the (env key))) keys))"
proof
  fix k
  have "map_of (rev (map (\<lambda>key. (key, the (env key))) keys)) k =
      map_of (map (\<lambda>key. (key, the (env key))) (rev keys)) k"
    by (simp add: rev_map)
  also have "\<dots> = (if k \<in> set keys then Some (the (env k)) else None)"
    by (simp add: map_of_map_restrict restrict_map_def)
  also have "\<dots> = env k"
    using assms by (cases "env k") auto
  finally show "env k = map_of (rev (map (\<lambda>key. (key, the (env key))) keys)) k" by simp
qed



text \<open>
  The table the loop leaves, as the list of the writes the loop makes: one for each key
  enumerated, in that order, each of an isolated copy of the key and of the converted value.
\<close>

lemma captured_env_table:
  assumes "captureEnv h reified keys Map.empty = Inr env"
  shows "\<exists>writes.
     (\<forall>key sk sv. env key = Some (sk, sv) \<longrightarrow>
        isolated sk \<and> isolated sv \<and> characters sk = key) \<and>
     map fst writes = keys \<and>
     (\<forall>w \<in> set writes.
        \<exists>v str. get reified (fst w) = Inr v \<and> toWTFString h v = Inr str
          \<and> snd w = (isolatedCopy (WTFString False (fst w)), isolatedCopy str)) \<and>
     env = map_of (rev writes)"
proof -
  from captured_env [OF assms] have d: "dom env = set keys"
    and pk: "\<And>key. key \<in> set keys \<Longrightarrow>
      \<exists>v str. get reified key = Inr v \<and> toWTFString h v = Inr str \<and>
        env key = Some (isolatedCopy (WTFString False key), isolatedCopy str)"
    by blast+
  let ?writes = "map (\<lambda>key. (key, the (env key))) keys"
  have i: "isolated sk \<and> isolated sv \<and> characters sk = key"
    if "env key = Some (sk, sv)" for key sk sv
  proof -
    from that d have "key \<in> set keys" by auto
    from pk [OF this] that show ?thesis by (auto simp: isolatedCopy_def)
  qed
  have m: "map fst ?writes = keys" by (simp add: comp_def)
  have w: "\<exists>v str. get reified (fst w) = Inr v \<and> toWTFString h v = Inr str
          \<and> snd w = (isolatedCopy (WTFString False (fst w)), isolatedCopy str)"
    if "w \<in> set ?writes" for w
  proof -
    from that obtain key where k: "key \<in> set keys" and e: "w = (key, the (env key))" by auto
    from pk [OF k] e show ?thesis by auto
  qed
  from i m w captured_env_writes [OF d] show ?thesis by blast
qed

subsection \<open>The native worker\<close>

lemma Worker_adopt_fields:
  "keepAlive (Worker_adopt options impl) = (\<not> bun_unref options) \<and>
   workerOptions (Worker_adopt options impl) = options"
  by (cases impl) simp

lemma Worker_create_keepAlive:
  "Worker_create h ctx scriptUrl options = Inr impl \<Longrightarrow>
     keepAlive impl = (\<not> bun_unref options) \<and> workerOptions impl = options"
  by (auto simp: Worker_create_def Worker_adopt_fields split: sum.splits)

lemma Worker_enqueue_keepAlive: "keepAlive (Worker_enqueue m impl) = keepAlive impl"
  by (cases impl) simp

lemma Worker_postMessage_keepAlive:
  "Worker_postMessage h message options impl = Inr impl' \<Longrightarrow> keepAlive impl' = keepAlive impl"
  by (auto simp: Worker_postMessage_def Worker_enqueue_keepAlive split: sum.splits prod.splits)

lemma Worker_setKeepAlive_keepAlive: "keepAlive (Worker_setKeepAlive b impl) = b"
  by (cases impl) simp

lemma Worker_terminate_keepAlive: "keepAlive (Worker_terminate impl) = keepAlive impl"
  by (cases impl) simp

lemma setEventHandlerAttribute_keepAlive:
  "keepAlive (setEventHandlerAttribute impl eventName handler) = keepAlive impl"
  by (cases impl) simp

lemma postMessage1Body_keepAlive:
  "jsWorkerPrototypeFunction_postMessage1Body h a0 a1 impl = Inr (result, impl') \<Longrightarrow>
     keepAlive impl' = keepAlive impl"
  by (auto simp: jsWorkerPrototypeFunction_postMessage1Body_def toJS_IDLUndefined_def
      split: sum.splits dest: Worker_postMessage_keepAlive)

lemma postMessage2Body_keepAlive:
  "jsWorkerPrototypeFunction_postMessage2Body h a0 a1 impl = Inr (result, impl') \<Longrightarrow>
     keepAlive impl' = keepAlive impl"
  by (auto simp: jsWorkerPrototypeFunction_postMessage2Body_def toJS_IDLUndefined_def
      RETURN_IF_EXCEPTION_def
      split: sum.splits option.splits prod.splits dest: Worker_postMessage_keepAlive)

lemma postMessageOverloadDispatcher_keepAlive:
  "jsWorkerPrototypeFunction_postMessageOverloadDispatcher h args impl = Inr (result, impl') \<Longrightarrow>
     keepAlive impl' = keepAlive impl"
  by (auto simp: jsWorkerPrototypeFunction_postMessageOverloadDispatcher_def Let_def
      split: if_splits sum.splits
      dest: postMessage1Body_keepAlive postMessage2Body_keepAlive)

text \<open>The definitions unfolded to evaluate the constructor on a concrete call.\<close>

lemmas construct_eval =
  construct_def construct_options_def andThen_def construct_name_def construct_smol_def
  construct_ref_def construct_workerData_def construct_lookupWorkerData_def
  construct_transferList_def construct_serialize_def construct_env_def construct_envObject_def
  construct_reify_def construct_argv_def construct_execArgv_def getIfPropertyExists_def
  RETURN_IF_EXCEPTION_def raise_def propagateException_def argument_def
  Worker_create_def Worker_updatePtr_def getOwnPropertyNames_def get_def indexOfKey_def
  decimal.simps HashMap_add_def isolatedCopy_def jsDynamicCast_JSArray_def
  exampleHost_def exampleWorker_def initialOptions_def objectOf_def arrayOf_def
  toJSNewlyCreated_def

subsection \<open>The claims\<close>

text \<open>
  Claim C1. Every call of \<open>postMessage\<close> resolves its overload as follows. Without an argument
  the call fails with the not-enough-arguments error. With one argument the options form
  (the second body) runs, with an empty transfer list. With two arguments or more the second
  argument decides: \<open>undefined\<close> or \<open>null\<close> gives the options form, with an empty transfer
  list; otherwise a value with an iterator method gives the transfer-list form (the first
  body), which posts with the sequence of objects the argument converts to, or fails with
  the error of that conversion; otherwise an object gives the options form; otherwise the
  call fails with a \<open>TypeError\<close>. The options form posts with an empty transfer list when the
  object has no \<open>transfer\<close> property, and with the converted value of that property when it
  has one.
\<close>

theorem postMessage_overload_resolution:
  "jsWorkerPrototypeFunction_postMessageOverloadDispatcher h [] impl = Inl NotEnoughArgumentsError
   \<and> jsWorkerPrototypeFunction_postMessageOverloadDispatcher h [message] impl =
       jsWorkerPrototypeFunction_postMessage2Body h message JSUndefined impl
   \<and> jsWorkerPrototypeFunction_postMessage2Body h message JSUndefined impl =
       toJS_IDLUndefined (Worker_postMessage h message \<lparr>transfer = []\<rparr> impl)
   \<and> (isUndefinedOrNull arg \<longrightarrow>
        jsWorkerPrototypeFunction_postMessageOverloadDispatcher h (message # arg # rest) impl =
          jsWorkerPrototypeFunction_postMessage2Body h message arg impl
        \<and> jsWorkerPrototypeFunction_postMessage2Body h message arg impl =
            toJS_IDLUndefined (Worker_postMessage h message \<lparr>transfer = []\<rparr> impl))
   \<and> (\<not> isUndefinedOrNull arg \<and> hasIteratorMethod h arg = Inr True \<longrightarrow>
        jsWorkerPrototypeFunction_postMessageOverloadDispatcher h (message # arg # rest) impl =
          jsWorkerPrototypeFunction_postMessage1Body h message arg impl)
   \<and> (\<not> isUndefinedOrNull arg \<and> hasIteratorMethod h arg = Inr True
        \<and> convertSequenceOfObjects h arg = Inr transferList \<longrightarrow>
        jsWorkerPrototypeFunction_postMessageOverloadDispatcher h (message # arg # rest) impl =
          toJS_IDLUndefined (Worker_postMessage h message \<lparr>transfer = transferList\<rparr> impl))
   \<and> (\<not> isUndefinedOrNull arg \<and> hasIteratorMethod h arg = Inr True
        \<and> convertSequenceOfObjects h arg = Inl e \<longrightarrow>
        jsWorkerPrototypeFunction_postMessageOverloadDispatcher h (message # arg # rest) impl =
          Inl e)
   \<and> jsWorkerPrototypeFunction_postMessage1Body h message arg impl =
       (case convertSequenceOfObjects h arg of
          Inl thrown \<Rightarrow> Inl thrown
        | Inr sequence \<Rightarrow>
            toJS_IDLUndefined (Worker_postMessage h message \<lparr>transfer = sequence\<rparr> impl))
   \<and> (\<not> isUndefinedOrNull arg \<and> hasIteratorMethod h arg = Inr False \<and> isObject arg \<longrightarrow>
        jsWorkerPrototypeFunction_postMessageOverloadDispatcher h (message # arg # rest) impl =
          jsWorkerPrototypeFunction_postMessage2Body h message arg impl)
   \<and> (\<not> isUndefinedOrNull arg \<and> hasIteratorMethod h arg = Inr False \<and> \<not> isObject arg \<longrightarrow>
        jsWorkerPrototypeFunction_postMessageOverloadDispatcher h (message # arg # rest) impl =
          Inl VMTypeError)
   \<and> (getIfPropertyExists optionsObject ''transfer'' = (None, None) \<longrightarrow>
        jsWorkerPrototypeFunction_postMessage2Body h message (JSObject optionsObject) impl =
          toJS_IDLUndefined (Worker_postMessage h message \<lparr>transfer = []\<rparr> impl))
   \<and> (getIfPropertyExists optionsObject ''transfer'' = (Some transferListValue, None)
        \<and> convertSequenceOfObjects h transferListValue = Inr transferList \<longrightarrow>
        jsWorkerPrototypeFunction_postMessage2Body h message (JSObject optionsObject) impl =
          toJS_IDLUndefined (Worker_postMessage h message \<lparr>transfer = transferList\<rparr> impl))"
proof -
  have undef: "jsWorkerPrototypeFunction_postMessage2Body h message arg impl =
      toJS_IDLUndefined (Worker_postMessage h message \<lparr>transfer = []\<rparr> impl)"
    if "isUndefinedOrNull arg" for arg
    using that
    by (auto simp: jsWorkerPrototypeFunction_postMessage2Body_def isUndefinedOrNull_def)
  show ?thesis
    using undef
    by (auto simp: jsWorkerPrototypeFunction_postMessageOverloadDispatcher_def argument_def
        isUndefined_def isUndefinedOrNull_def Let_def
        jsWorkerPrototypeFunction_postMessage2Body_def
        jsWorkerPrototypeFunction_postMessage1Body_def RETURN_IF_EXCEPTION_def)
qed

text \<open>
  The dispatch table on the example host: \<open>postMessage()\<close>, \<open>postMessage(m)\<close>,
  \<open>postMessage(m, null)\<close>, \<open>postMessage(m, [r])\<close>, \<open>postMessage(m, {transfer: [r]})\<close>,
  \<open>postMessage(m, [7])\<close> and \<open>postMessage(m, 5)\<close>. The array \<open>[r]\<close> is taken as the transfer
  list itself: the options form on the same argument would find no \<open>transfer\<close> property and
  post no port. The array \<open>[7]\<close> is not a sequence of objects, and the call fails with the
  error of the conversion.
\<close>

theorem postMessage_overload_resolution_witness:
  "jsWorkerPrototypeFunction_postMessageOverloadDispatcher exampleHost [] exampleWorker =
     Inl NotEnoughArgumentsError
   \<and> jsWorkerPrototypeFunction_postMessageOverloadDispatcher exampleHost
       [JSString ''hi''] exampleWorker =
       Inr (JSUndefined, Worker 2 initialOptions True False True False [([], [])] [])
   \<and> isUndefinedOrNull JSNull
   \<and> jsWorkerPrototypeFunction_postMessageOverloadDispatcher exampleHost
       [JSString ''hi'', JSNull] exampleWorker =
       Inr (JSUndefined, Worker 2 initialOptions True False True False [([], [])] [])
   \<and> \<not> isUndefinedOrNull (JSObject (arrayOf [JSObject (objectOf [])]))
   \<and> hasIteratorMethod exampleHost (JSObject (arrayOf [JSObject (objectOf [])])) = Inr True
   \<and> convertSequenceOfObjects exampleHost (JSObject (arrayOf [JSObject (objectOf [])])) =
       Inr [JSObject (objectOf [])]
   \<and> jsWorkerPrototypeFunction_postMessageOverloadDispatcher exampleHost
       [JSString ''hi'', JSObject (arrayOf [JSObject (objectOf [])])] exampleWorker =
       Inr (JSUndefined, Worker 2 initialOptions True False True False [([], [0])] [])
   \<and> jsWorkerPrototypeFunction_postMessage2Body exampleHost (JSString ''hi'')
       (JSObject (arrayOf [JSObject (objectOf [])])) exampleWorker =
       Inr (JSUndefined, Worker 2 initialOptions True False True False [([], [])] [])
   \<and> hasIteratorMethod exampleHost (JSObject (objectOf [(''transfer'', JSObject (arrayOf [JSObject (objectOf [])]))])) = Inr False
   \<and> isObject (JSObject (objectOf [(''transfer'', JSObject (arrayOf [JSObject (objectOf [])]))]))
   \<and> getIfPropertyExists (objectOf [(''transfer'', JSObject (arrayOf [JSObject (objectOf [])]))]) ''transfer'' =
       (Some (JSObject (arrayOf [JSObject (objectOf [])])), None)
   \<and> jsWorkerPrototypeFunction_postMessageOverloadDispatcher exampleHost
       [JSString ''hi'', JSObject (objectOf [(''transfer'', JSObject (arrayOf [JSObject (objectOf [])]))])] exampleWorker =
       Inr (JSUndefined, Worker 2 initialOptions True False True False [([], [0])] [])
   \<and> hasIteratorMethod exampleHost (JSObject (arrayOf [JSNumber 7])) = Inr True
   \<and> convertSequenceOfObjects exampleHost (JSObject (arrayOf [JSNumber 7])) = Inl VMTypeError
   \<and> jsWorkerPrototypeFunction_postMessageOverloadDispatcher exampleHost
       [JSString ''hi'', JSObject (arrayOf [JSNumber 7])] exampleWorker = Inl VMTypeError
   \<and> hasIteratorMethod exampleHost (JSNumber 5) = Inr False
   \<and> \<not> isObject (JSNumber 5)
   \<and> jsWorkerPrototypeFunction_postMessageOverloadDispatcher exampleHost
       [JSString ''hi'', JSNumber 5] exampleWorker = Inl VMTypeError"
  using
    postMessage_overload_resolution [where h = exampleHost and impl = exampleWorker
      and message = "JSString ''hi''" and arg = JSNull and rest = "[]"
      and optionsObject = "objectOf [(''transfer'', JSObject (arrayOf [JSObject (objectOf [])]))]"
      and transferListValue = "JSObject (arrayOf [JSObject (objectOf [])])"
      and transferList = "[JSObject (objectOf [])]" and e = VMTypeError]
    postMessage_overload_resolution [where h = exampleHost and impl = exampleWorker
      and message = "JSString ''hi''" and arg = "JSObject (arrayOf [JSObject (objectOf [])])"
      and rest = "[]" and optionsObject = "objectOf [(''transfer'', JSObject (arrayOf [JSObject (objectOf [])]))]"
      and transferListValue = "JSObject (arrayOf [JSObject (objectOf [])])"
      and transferList = "[JSObject (objectOf [])]" and e = VMTypeError]
    postMessage_overload_resolution [where h = exampleHost and impl = exampleWorker
      and message = "JSString ''hi''" and arg = "JSObject (objectOf [(''transfer'', JSObject (arrayOf [JSObject (objectOf [])]))])" and rest = "[]"
      and optionsObject = "objectOf [(''transfer'', JSObject (arrayOf [JSObject (objectOf [])]))]"
      and transferListValue = "JSObject (arrayOf [JSObject (objectOf [])])"
      and transferList = "[JSObject (objectOf [])]" and e = VMTypeError]
    postMessage_overload_resolution [where h = exampleHost and impl = exampleWorker
      and message = "JSString ''hi''" and arg = "JSObject (arrayOf [JSNumber 7])"
      and rest = "[]"
      and optionsObject = "objectOf [(''transfer'', JSObject (arrayOf [JSObject (objectOf [])]))]"
      and transferListValue = "JSObject (arrayOf [JSObject (objectOf [])])"
      and transferList = "[JSObject (objectOf [])]" and e = VMTypeError]
    postMessage_overload_resolution [where h = exampleHost and impl = exampleWorker
      and message = "JSString ''hi''" and arg = "JSNumber 5" and rest = "[]"
      and optionsObject = "objectOf [(''transfer'', JSObject (arrayOf [JSObject (objectOf [])]))]"
      and transferListValue = "JSObject (arrayOf [JSObject (objectOf [])])"
      and transferList = "[JSObject (objectOf [])]" and e = VMTypeError]
  by (simp add: exampleHost_def exampleWorker_def isUndefinedOrNull_def objectOf_def
      arrayOf_def getIfPropertyExists_def toJS_IDLUndefined_def Worker_postMessage_def
      jsWorkerPrototypeFunction_postMessage2Body_def RETURN_IF_EXCEPTION_def)

text \<open>
  Claim C2, as amended. For every constructor call whose second argument is an object and
  whose options are read: when the \<open>env\<close> option is an object, and when it is omitted and
  the creating context has a \<open>process.env\<close> object, which then takes its place, every own
  enumerable string-keyed property of that object (the indexed elements of an array
  included, under their indices) is converted to a string and captured into the options' env
  mapping, which has no other key. The key and the value stored are isolated copies, stored
  under the characters of the key. The mapping is the one that the writes, one for each key
  in the order of enumeration, leave when a later write replaces an earlier one. When \<open>env\<close>
  is omitted and the context has no such object, and when the second argument is not an
  object, as in a call without options, no mapping is captured.
\<close>

theorem env_capture:
  "construct_options h argument1 = Inr options \<longrightarrow>
     (jsDynamicCast_JSObject argument1 = None \<longrightarrow> bun_env options = None)
     \<and> (argument1 = JSObject obj
          \<and> (fst (getIfPropertyExists obj ''env'') = Some (JSObject source)
             \<or> fst (getIfPropertyExists obj ''env'') = None
               \<and> m_processEnvObject h = Some source) \<longrightarrow>
        (\<exists>reified env writes. construct_reify h source = Inr reified \<and>
           bun_env options = Some env \<and>
           dom env = set (getOwnPropertyNames reified) \<and>
           (\<forall>key \<in> set (getOwnPropertyNames reified).
              \<exists>v str. get reified key = Inr v \<and> toWTFString h v = Inr str
                \<and> env key = Some (isolatedCopy (WTFString False key), isolatedCopy str)) \<and>
           (\<forall>key sk sv. env key = Some (sk, sv) \<longrightarrow>
              isolated sk \<and> isolated sv \<and> characters sk = key) \<and>
           map fst writes = getOwnPropertyNames reified \<and>
           (\<forall>w \<in> set writes.
              \<exists>v str. get reified (fst w) = Inr v \<and> toWTFString h v = Inr str
                \<and> snd w = (isolatedCopy (WTFString False (fst w)), isolatedCopy str)) \<and>
           env = map_of (rev writes)))
     \<and> (argument1 = JSObject obj \<and> fst (getIfPropertyExists obj ''env'') = None
          \<and> m_processEnvObject h = None \<longrightarrow>
        bun_env options = None)"
proof
  assume c: "construct_options h argument1 = Inr options"
  have none: "bun_env options = None" if "jsDynamicCast_JSObject argument1 = None"
    using c construct_options_not_object [OF that, of h] by (auto simp: initialOptions_def)
  have obj: "case construct_envObject h (fst (getIfPropertyExists obj ''env'')) of
      None \<Rightarrow> bun_env options = None
    | Some source \<Rightarrow>
        (\<exists>reified env writes. construct_reify h source = Inr reified \<and>
           bun_env options = Some env \<and>
           dom env = set (getOwnPropertyNames reified) \<and>
           (\<forall>key \<in> set (getOwnPropertyNames reified).
              \<exists>v str. get reified key = Inr v \<and> toWTFString h v = Inr str
                \<and> env key = Some (isolatedCopy (WTFString False key), isolatedCopy str)) \<and>
           (\<forall>key sk sv. env key = Some (sk, sv) \<longrightarrow>
              isolated sk \<and> isolated sv \<and> characters sk = key) \<and>
           map fst writes = getOwnPropertyNames reified \<and>
           (\<forall>w \<in> set writes.
              \<exists>v str. get reified (fst w) = Inr v \<and> toWTFString h v = Inr str
                \<and> snd w = (isolatedCopy (WTFString False (fst w)), isolatedCopy str)) \<and>
           env = map_of (rev writes))"
    if a: "argument1 = JSObject obj"
  proof -
    from c [unfolded a] obtain s1 s2 s3 s4 s5 s6 s7 where st:
      "construct_name h obj \<lparr>opts = initialOptions, exc = None\<rparr> = Inr s1"
      "construct_smol obj s1 = Inr s2"
      "construct_ref obj s2 = Inr s3"
      "construct_workerData h obj s3 = Inr s4"
      "construct_env h obj s4 = Inr s5"
      "construct_argv h obj s5 = Inr s6"
      "construct_execArgv h obj s6 = Inr s7"
      "exc s7 = None" "options = opts s7"
      by (rule construct_options_stages)
    have e4: "bun_env (opts s4) = None"
      using construct_name_frame [OF st(1)] construct_smol_frame [OF st(2)]
        construct_ref_frame [OF st(3)] construct_workerData_frame [OF st(4)]
      by (simp add: initialOptions_def)
    have e7: "bun_env options = bun_env (opts s5)"
      using construct_argv_frame [OF st(6)] construct_execArgv_frame [OF st(7)] st(9)
      by simp
    show ?thesis
    proof (cases "construct_envObject h (fst (getIfPropertyExists obj ''env''))")
      case None
      with construct_env_result [OF st(5)] e4 e7 show ?thesis by simp
    next
      case (Some eo)
      with construct_env_result [OF st(5)] obtain reified env where
        r: "construct_reify h eo = Inr reified"
        and k: "captureEnv h reified (getOwnPropertyNames reified) Map.empty = Inr env"
        and b: "bun_env (opts s5) = Some env"
        by auto
      from captured_env_table [OF k] obtain writes where t:
        "\<forall>key sk sv. env key = Some (sk, sv) \<longrightarrow>
           isolated sk \<and> isolated sv \<and> characters sk = key"
        "map fst writes = getOwnPropertyNames reified"
        "\<forall>w \<in> set writes.
           \<exists>v str. get reified (fst w) = Inr v \<and> toWTFString h v = Inr str
             \<and> snd w = (isolatedCopy (WTFString False (fst w)), isolatedCopy str)"
        "env = map_of (rev writes)"
        by blast
      from captured_env [OF k] have d:
        "dom env = set (getOwnPropertyNames reified)"
        "\<forall>key \<in> set (getOwnPropertyNames reified).
           \<exists>v str. get reified key = Inr v \<and> toWTFString h v = Inr str
             \<and> env key = Some (isolatedCopy (WTFString False key), isolatedCopy str)"
        by blast+
      have "(\<exists>reified env writes. construct_reify h eo = Inr reified \<and>
           bun_env options = Some env \<and>
           dom env = set (getOwnPropertyNames reified) \<and>
           (\<forall>key \<in> set (getOwnPropertyNames reified).
              \<exists>v str. get reified key = Inr v \<and> toWTFString h v = Inr str
                \<and> env key = Some (isolatedCopy (WTFString False key), isolatedCopy str)) \<and>
           (\<forall>key sk sv. env key = Some (sk, sv) \<longrightarrow>
              isolated sk \<and> isolated sv \<and> characters sk = key) \<and>
           map fst writes = getOwnPropertyNames reified \<and>
           (\<forall>w \<in> set writes.
              \<exists>v str. get reified (fst w) = Inr v \<and> toWTFString h v = Inr str
                \<and> snd w = (isolatedCopy (WTFString False (fst w)), isolatedCopy str)) \<and>
           env = map_of (rev writes))"
        using r b [folded e7] d t by blast
      with Some show ?thesis by simp
    qed
  qed
  show "(jsDynamicCast_JSObject argument1 = None \<longrightarrow> bun_env options = None)
     \<and> (argument1 = JSObject obj
          \<and> (fst (getIfPropertyExists obj ''env'') = Some (JSObject source)
             \<or> fst (getIfPropertyExists obj ''env'') = None
               \<and> m_processEnvObject h = Some source) \<longrightarrow>
        (\<exists>reified env writes. construct_reify h source = Inr reified \<and>
           bun_env options = Some env \<and>
           dom env = set (getOwnPropertyNames reified) \<and>
           (\<forall>key \<in> set (getOwnPropertyNames reified).
              \<exists>v str. get reified key = Inr v \<and> toWTFString h v = Inr str
                \<and> env key = Some (isolatedCopy (WTFString False key), isolatedCopy str)) \<and>
           (\<forall>key sk sv. env key = Some (sk, sv) \<longrightarrow>
              isolated sk \<and> isolated sv \<and> characters sk = key) \<and>
           map fst writes = getOwnPropertyNames reified \<and>
           (\<forall>w \<in> set writes.
              \<exists>v str. get reified (fst w) = Inr v \<and> toWTFString h v = Inr str
                \<and> snd w = (isolatedCopy (WTFString False (fst w)), isolatedCopy str)) \<and>
           env = map_of (rev writes)))
     \<and> (argument1 = JSObject obj \<and> fst (getIfPropertyExists obj ''env'') = None
          \<and> m_processEnvObject h = None \<longrightarrow>
        bun_env options = None)"
  proof (intro conjI impI)
    assume "jsDynamicCast_JSObject argument1 = None"
    then show "bun_env options = None" by (rule none)
  next
    assume p: "argument1 = JSObject obj
          \<and> (fst (getIfPropertyExists obj ''env'') = Some (JSObject source)
             \<or> fst (getIfPropertyExists obj ''env'') = None
               \<and> m_processEnvObject h = Some source)"
    then have "construct_envObject h (fst (getIfPropertyExists obj ''env'')) = Some source"
      by (auto simp: construct_envObject_def)
    with obj p show "(\<exists>reified env writes. construct_reify h source = Inr reified \<and>
           bun_env options = Some env \<and>
           dom env = set (getOwnPropertyNames reified) \<and>
           (\<forall>key \<in> set (getOwnPropertyNames reified).
              \<exists>v str. get reified key = Inr v \<and> toWTFString h v = Inr str
                \<and> env key = Some (isolatedCopy (WTFString False key), isolatedCopy str)) \<and>
           (\<forall>key sk sv. env key = Some (sk, sv) \<longrightarrow>
              isolated sk \<and> isolated sv \<and> characters sk = key) \<and>
           map fst writes = getOwnPropertyNames reified \<and>
           (\<forall>w \<in> set writes.
              \<exists>v str. get reified (fst w) = Inr v \<and> toWTFString h v = Inr str
                \<and> snd w = (isolatedCopy (WTFString False (fst w)), isolatedCopy str)) \<and>
           env = map_of (rev writes))"
      by simp
  next
    assume "argument1 = JSObject obj \<and> fst (getIfPropertyExists obj ''env'') = None
          \<and> m_processEnvObject h = None"
    with obj show "bun_env options = None"
      by (simp add: construct_envObject_def)
  qed
qed

text \<open>
  On the example host: \<open>{env: ["a", "b"]}\<close> is captured under the keys \<open>"0"\<close> and \<open>"1"\<close>,
  \<open>{env: {A: "1", B: true}}\<close> as it is, \<open>{name: "w"}\<close> takes the host's \<open>process.env\<close>, or
  nothing when the host has none, and a call without options captures nothing.
\<close>

theorem env_capture_witness:
  "construct_options exampleHost (JSObject (objectOf [(''env'', JSObject (arrayOf [JSString ''a'', JSString ''b'']))])) =
     Inr (initialOptions\<lparr>bun_env := Some [''0'' \<mapsto> (WTFString True ''0'', WTFString True ''a''), ''1'' \<mapsto> (WTFString True ''1'', WTFString True ''b'')]\<rparr>)
   \<and> fst (getIfPropertyExists (objectOf [(''env'', JSObject (arrayOf [JSString ''a'', JSString ''b'']))]) ''env'') =
       Some (JSObject (arrayOf [JSString ''a'', JSString ''b'']))
   \<and> getOwnPropertyNames (arrayOf [JSString ''a'', JSString ''b'']) = [''0'', ''1'']
   \<and> get (arrayOf [JSString ''a'', JSString ''b'']) ''1'' = Inr (JSString ''b'')
   \<and> construct_options exampleHost (JSObject (objectOf [(''env'', JSObject (objectOf [(''A'', JSString ''1''), (''B'', JSBoolean True)]))])) =
     Inr (initialOptions\<lparr>bun_env := Some [''A'' \<mapsto> (WTFString True ''A'', WTFString True ''1''), ''B'' \<mapsto> (WTFString True ''B'', WTFString True ''true'')]\<rparr>)
   \<and> fst (getIfPropertyExists (objectOf [(''env'', JSObject (objectOf [(''A'', JSString ''1''), (''B'', JSBoolean True)]))]) ''env'') =
       Some (JSObject (objectOf [(''A'', JSString ''1''), (''B'', JSBoolean True)]))
   \<and> getOwnPropertyNames (objectOf [(''A'', JSString ''1''), (''B'', JSBoolean True)]) =
       [''A'', ''B'']
   \<and> construct_options exampleHost (JSObject (objectOf [(''name'', JSString ''w'')])) =
     Inr (initialOptions\<lparr>name := WTFString False ''w'', bun_env := Some [''HOME'' \<mapsto> (WTFString True ''HOME'', WTFString True ''/root'')]\<rparr>)
   \<and> fst (getIfPropertyExists (objectOf [(''name'', JSString ''w'')]) ''env'') = None
   \<and> m_processEnvObject exampleHost = Some (objectOf [(''HOME'', JSString ''/root'')])
   \<and> construct_options (exampleHost\<lparr>m_processEnvObject := None\<rparr>) (JSObject (objectOf [(''name'', JSString ''w'')])) =
     Inr (initialOptions\<lparr>name := WTFString False ''w''\<rparr>)
   \<and> jsDynamicCast_JSObject JSUndefined = None
   \<and> construct_options exampleHost JSUndefined = Inr initialOptions
   \<and> bun_env initialOptions = None"
  using
    env_capture [where h = exampleHost and ?argument1.0 = "JSObject (objectOf [(''env'', JSObject (arrayOf [JSString ''a'', JSString ''b'']))])"
      and options = "initialOptions\<lparr>bun_env := Some [''0'' \<mapsto> (WTFString True ''0'', WTFString True ''a''), ''1'' \<mapsto> (WTFString True ''1'', WTFString True ''b'')]\<rparr>"
      and obj = "objectOf [(''env'', JSObject (arrayOf [JSString ''a'', JSString ''b'']))]" and source = "arrayOf [JSString ''a'', JSString ''b'']"]
    env_capture [where h = exampleHost and ?argument1.0 = "JSObject (objectOf [(''env'', JSObject (objectOf [(''A'', JSString ''1''), (''B'', JSBoolean True)]))])"
      and options = "initialOptions\<lparr>bun_env := Some [''A'' \<mapsto> (WTFString True ''A'', WTFString True ''1''), ''B'' \<mapsto> (WTFString True ''B'', WTFString True ''true'')]\<rparr>"
      and obj = "objectOf [(''env'', JSObject (objectOf [(''A'', JSString ''1''), (''B'', JSBoolean True)]))]"
      and source = "objectOf [(''A'', JSString ''1''), (''B'', JSBoolean True)]"]
    env_capture [where h = exampleHost and ?argument1.0 = "JSObject (objectOf [(''name'', JSString ''w'')])"
      and options = "initialOptions\<lparr>name := WTFString False ''w'', bun_env := Some [''HOME'' \<mapsto> (WTFString True ''HOME'', WTFString True ''/root'')]\<rparr>"
      and obj = "objectOf [(''name'', JSString ''w'')]" and source = "objectOf [(''HOME'', JSString ''/root'')]"]
    env_capture [where h = "exampleHost\<lparr>m_processEnvObject := None\<rparr>"
      and ?argument1.0 = "JSObject (objectOf [(''name'', JSString ''w'')])"
      and options = "initialOptions\<lparr>name := WTFString False ''w''\<rparr>"
      and obj = "objectOf [(''name'', JSString ''w'')]" and source = "objectOf []"]
    env_capture [where h = exampleHost and ?argument1.0 = JSUndefined
      and options = initialOptions and obj = "objectOf []" and source = "objectOf []"]
  by (simp (no_asm) add: construct_eval)

text \<open>
  Claim C2 as stated fails for a call without an options object: \<open>new Worker("worker.js")\<close>
  omits \<open>env\<close>, the creating context has a \<open>process.env\<close> object, and yet the options of the
  new worker hold no env mapping.
\<close>

theorem env_default_counterexample:
  "m_processEnvObject exampleHost = Some (objectOf [(''HOME'', JSString ''/root'')])
   \<and> construct exampleHost [JSString ''worker.js''] = Inr (toJSNewlyCreated exampleWorker)
   \<and> bun_env (workerOptions exampleWorker) = None"
  by (simp add: construct_eval)

text \<open>
  Claim C3. After a successful construction the handle's \<open>keepAlive\<close> is true unless the
  options object has a \<open>ref\<close> property whose value converts to false, in which case it is
  false. \<open>ref()\<close> sets it to true and \<open>unref()\<close> sets it to false. The other operations that
  change the native worker leave it as it is: \<open>terminate()\<close>, \<open>postMessage\<close>, and the setters
  of \<open>onmessage\<close>, \<open>onmessageerror\<close> and \<open>onerror\<close>. The getters of the three handlers and of
  \<open>threadId\<close> only return a value.
\<close>

theorem keepAlive_lifecycle:
  "(construct h args = Inr jsValue \<longrightarrow>
      (\<exists>impl. jsDynamicCast_JSWorker jsValue = Some impl \<and>
         keepAlive impl =
           (\<not> (\<exists>obj r. argument args 1 = JSObject obj
                  \<and> fst (getIfPropertyExists obj ''ref'') = Some r \<and> \<not> toBoolean r))))
   \<and> keepAlive (snd (jsWorkerPrototypeFunction_refBody impl)) = True
   \<and> keepAlive (snd (jsWorkerPrototypeFunction_unrefBody impl)) = False
   \<and> keepAlive (snd (jsWorkerPrototypeFunction_terminateBody impl)) = keepAlive impl
   \<and> (jsWorkerPrototypeFunction_postMessageOverloadDispatcher h args' impl = Inr (result, impl')
        \<longrightarrow> keepAlive impl' = keepAlive impl)
   \<and> keepAlive (snd (setJSWorker_onmessageSetter impl handler)) = keepAlive impl
   \<and> keepAlive (snd (setJSWorker_onmessageerrorSetter impl handler)) = keepAlive impl
   \<and> keepAlive (snd (setJSWorker_onerrorSetter impl handler)) = keepAlive impl"
proof -
  have "\<exists>w. jsDynamicCast_JSWorker jsValue = Some w \<and>
         keepAlive w =
           (\<not> (\<exists>obj r. argument args 1 = JSObject obj
                  \<and> fst (getIfPropertyExists obj ''ref'') = Some r \<and> \<not> toBoolean r))"
    if c: "construct h args = Inr jsValue"
  proof -
    from construct_Inr [OF c] obtain ctx scriptUrl options w where
      o: "construct_options h (argument args 1) = Inr options"
      and w: "Worker_create h ctx scriptUrl options = Inr w"
      and j: "jsValue = toJSNewlyCreated w"
      by blast
    from Worker_create_keepAlive [OF w] construct_options_unref [OF o] j
    show ?thesis by (simp add: toJSNewlyCreated_def)
  qed
  then show ?thesis
    using postMessageOverloadDispatcher_keepAlive [of h args' impl result impl']
    by (simp add: jsWorkerPrototypeFunction_refBody_def jsWorkerPrototypeFunction_unrefBody_def
        jsWorkerPrototypeFunction_terminateBody_def Worker_setKeepAlive_keepAlive
        Worker_terminate_keepAlive setJSWorker_onmessageSetter_def
        setJSWorker_onmessageerrorSetter_def setJSWorker_onerrorSetter_def
        setEventHandlerAttribute_keepAlive)
qed

text \<open>
  On the example host: \<open>{ref: false}\<close> gives a handle with \<open>keepAlive\<close> false, \<open>{ref: 1}\<close> one
  with \<open>keepAlive\<close> true; a posted message and an assigned \<open>onmessage\<close> handler change the
  queue and the handler slot, and leave \<open>keepAlive\<close> as it is.
\<close>

theorem keepAlive_lifecycle_witness:
  "construct exampleHost [JSString ''worker.js'', JSObject (objectOf [(''ref'', JSBoolean False)])] =
     Inr (toJSNewlyCreated
       (Worker 2
          (initialOptions\<lparr>bun_unref := True,
             bun_env := Some [''HOME'' \<mapsto> (WTFString True ''HOME'', WTFString True ''/root'')]\<rparr>)
          False False True False [] []))
   \<and> construct exampleHost [JSString ''worker.js'', JSObject (objectOf [(''ref'', JSNumber 1)])] =
     Inr (toJSNewlyCreated
       (Worker 2
          (initialOptions\<lparr>bun_env :=
             Some [''HOME'' \<mapsto> (WTFString True ''HOME'', WTFString True ''/root'')]\<rparr>)
          True False True False [] []))
   \<and> keepAlive exampleWorker = True
   \<and> jsWorkerPrototypeFunction_postMessageOverloadDispatcher exampleHost [JSString ''hi'']
       exampleWorker =
       Inr (JSUndefined, Worker 2 initialOptions True False True False [([], [])] [])
   \<and> setJSWorker_onmessageSetter exampleWorker (JSObject (objectOf [])) =
       (True, Worker 2 initialOptions True False True False []
                [(''message'', JSObject (objectOf []))])
   \<and> jsWorker_onmessageGetter
       (snd (setJSWorker_onmessageSetter exampleWorker (JSObject (objectOf [])))) =
       JSObject (objectOf [])
   \<and> jsWorker_onerrorGetter exampleWorker = JSNull"
  using
    keepAlive_lifecycle [where h = exampleHost
      and args = "[JSString ''worker.js'', JSObject (objectOf [(''ref'', JSBoolean False)])]"
      and jsValue = "toJSNewlyCreated
       (Worker 2
          (initialOptions\<lparr>bun_unref := True,
             bun_env := Some [''HOME'' \<mapsto> (WTFString True ''HOME'', WTFString True ''/root'')]\<rparr>)
          False False True False [] [])"
      and impl = exampleWorker and args' = "[JSString ''hi'']" and result = JSUndefined
      and impl' = "Worker 2 initialOptions True False True False [([], [])] []"
      and handler = "JSObject (objectOf [])"]
    keepAlive_lifecycle [where h = exampleHost
      and args = "[JSString ''worker.js'', JSObject (objectOf [(''ref'', JSNumber 1)])]"
      and jsValue = "toJSNewlyCreated
       (Worker 2
          (initialOptions\<lparr>bun_env :=
             Some [''HOME'' \<mapsto> (WTFString True ''HOME'', WTFString True ''/root'')]\<rparr>)
          True False True False [] [])"
      and impl = exampleWorker and args' = "[JSString ''hi'']" and result = JSUndefined
      and impl' = "Worker 2 initialOptions True False True False [([], [])] []"
      and handler = "JSObject (objectOf [])"]
  by (simp add: construct_eval
      jsWorkerPrototypeFunction_postMessageOverloadDispatcher_def
      jsWorkerPrototypeFunction_postMessage2Body_def toJS_IDLUndefined_def
      Worker_postMessage_def setJSWorker_onmessageSetter_def jsWorker_onmessageGetter_def
      jsWorker_onerrorGetter_def eventHandlerAttribute_def)

text \<open>
  Claim C4. The collector is told that a handle is reachable from the opaque roots exactly
  when its context is not stopped and it has pending activity. A handle is therefore kept by
  a collection exactly when something refers to it or its context is not stopped and it has
  pending activity: a handle to which nothing refers is kept exactly when its context is not
  stopped and it has pending activity, and is reclaimed otherwise.
\<close>

theorem handle_kept_iff_pending_activity:
  "fst (JSWorkerOwner_isReachableFromOpaqueRoots impl reason) =
     (\<not> isContextStopped impl \<and> hasPendingActivity impl)
   \<and> ((referenced, impl) \<in> set (collect handles)) =
       ((referenced, impl) \<in> set handles
        \<and> (referenced \<or> (\<not> isContextStopped impl \<and> hasPendingActivity impl)))
   \<and> ((False, impl) \<in> set (collect handles)) =
       ((False, impl) \<in> set handles \<and> \<not> isContextStopped impl \<and> hasPendingActivity impl)
   \<and> reclaims referenced impl =
       (\<not> referenced \<and> \<not> (\<not> isContextStopped impl \<and> hasPendingActivity impl))"
  by (auto simp: collect_def reclaims_def JSWorkerOwner_isReachableFromOpaqueRoots_def)

text \<open>
  A collection over four handles: of the three to which nothing refers, only the one whose
  context runs and which has pending activity is kept; the fourth, stopped and idle, is kept
  because it is referred to.
\<close>

theorem handle_kept_iff_pending_activity_witness:
  "collect
     [(False, Worker 2 initialOptions True False True False [] []),
      (False, Worker 3 initialOptions True False False False [] []),
      (False, Worker 4 initialOptions True True True False [] []),
      (True, Worker 5 initialOptions True True False False [] [])] =
     [(False, Worker 2 initialOptions True False True False [] []),
      (True, Worker 5 initialOptions True True False False [] [])]
   \<and> JSWorkerOwner_isReachableFromOpaqueRoots
       (Worker 2 initialOptions True False True False [] []) True =
       (True, Some ''ActiveDOMObject with pending activity'')"
  using handle_kept_iff_pending_activity [where impl = "Worker 2 initialOptions True False True False [] []"
      and referenced = False and reason = True
      and handles = "[(False, Worker 2 initialOptions True False True False [] []),
      (False, Worker 3 initialOptions True False False False [] []),
      (False, Worker 4 initialOptions True True True False [] []),
      (True, Worker 5 initialOptions True True False False [] [])]"]
  by (simp add: collect_def reclaims_def JSWorkerOwner_isReachableFromOpaqueRoots_def)




text \<open>
  Claim C6. When the arguments are accepted, the options are read and the native worker is
  created, but the start of its thread fails, the constructor fails with the error
  \<open>Failed to start Worker thread\<close> and returns no handle.
\<close>

theorem thread_start_failure:
  assumes "1 \<le> length args"
    and "scriptExecutionContext h = Some ctx"
    and "convertUSVString h (args ! 0) = Inr scriptUrl"
    and "construct_options h (argument args 1) = Inr options"
    and "Worker_create h ctx scriptUrl options = Inr impl"
    and "\<not> Worker_updatePtr h impl"
  shows "construct h args = Inl (VMError ''Failed to start Worker thread'')"
proof -
  from assms(1) have "args \<noteq> []" by auto
  with assms(2-) show ?thesis by (simp add: construct_def)
qed

text \<open>The example host with a collaborator whose thread never starts.\<close>

theorem thread_start_failure_witness:
  "1 \<le> length [JSString ''worker.js'']
   \<and> scriptExecutionContext (exampleHost\<lparr>WebWorker_updatePtr := \<lambda>impl. False\<rparr>) = Some 1
   \<and> construct_options (exampleHost\<lparr>WebWorker_updatePtr := \<lambda>impl. False\<rparr>)
       (argument [JSString ''worker.js''] 1) = Inr initialOptions
   \<and> Worker_create (exampleHost\<lparr>WebWorker_updatePtr := \<lambda>impl. False\<rparr>) 1 ''worker.js''
       initialOptions = Inr exampleWorker
   \<and> \<not> Worker_updatePtr (exampleHost\<lparr>WebWorker_updatePtr := \<lambda>impl. False\<rparr>) exampleWorker
   \<and> construct (exampleHost\<lparr>WebWorker_updatePtr := \<lambda>impl. False\<rparr>) [JSString ''worker.js''] =
       Inl (VMError ''Failed to start Worker thread'')"
  using thread_start_failure [where args = "[JSString ''worker.js'']"
      and h = "exampleHost\<lparr>WebWorker_updatePtr := \<lambda>impl. False\<rparr>" and ctx = 1
      and scriptUrl = "''worker.js''" and options = initialOptions and impl = exampleWorker]
  by (simp add: construct_eval exampleWorker_def)

text \<open>
  Claim C7. The \<open>threadId\<close> getter returns \<open>clientIdentifier - 1\<close> for a receiver that is a
  worker handle, computed on the unsigned identifier (for an identifier other than 0 this is
  the integer \<open>clientIdentifier - 1\<close>), and returns \<open>undefined\<close>, without an error, for any
  other receiver.
\<close>

theorem threadId_getter:
  "(jsDynamicCast_JSWorker thisValue = Some impl \<longrightarrow>
      jsWorker_threadIdGetter thisValue = JSNumber (uint (clientIdentifier impl - 1))
      \<and> (clientIdentifier impl \<noteq> 0 \<longrightarrow>
           jsWorker_threadIdGetter thisValue = JSNumber (uint (clientIdentifier impl) - 1)))
   \<and> (jsDynamicCast_JSWorker thisValue = None \<longrightarrow>
        jsWorker_threadIdGetter thisValue = JSUndefined)"
proof -
  have "uint (x - 1) = uint x - 1" if "x \<noteq> 0" for x :: "32 word"
    using that uint_minus_simple_alt word_le_sub1 by force
  then show ?thesis
    by (simp add: jsWorker_threadIdGetter_def)
qed

text \<open>The handle of the example worker, whose identifier is 2, and a receiver that is a string.\<close>

theorem threadId_getter_witness:
  "jsDynamicCast_JSWorker (toJSNewlyCreated exampleWorker) = Some exampleWorker
   \<and> clientIdentifier exampleWorker \<noteq> 0
   \<and> jsWorker_threadIdGetter (toJSNewlyCreated exampleWorker) = JSNumber 1
   \<and> jsDynamicCast_JSWorker (JSString ''worker'') = None
   \<and> jsWorker_threadIdGetter (JSString ''worker'') = JSUndefined"
  using threadId_getter [where thisValue = "toJSNewlyCreated exampleWorker"
      and impl = exampleWorker]
    threadId_getter [where thisValue = "JSString ''worker''" and impl = exampleWorker]
  by (simp add: toJSNewlyCreated_def exampleWorker_def)



text \<open>
  Claim C9. On every successful reading of the options, \<open>argv\<close> is captured exactly when
  the option is present and its value is a cell of type \<open>ArrayType\<close>: the strings captured are
  isolated copies of the conversions of the elements, in order. A value that is present and
  is not such an array leaves the options without \<open>argv\<close> and raises nothing: the block
  returns the state it was given. The same holds of \<open>execArgv\<close>.
\<close>

theorem argv_execArgv_capture:
  "(construct_options h (JSObject obj) = Inr options \<longrightarrow>
      (case fst (getIfPropertyExists obj ''argv'') of
         Some v \<Rightarrow>
           if isCell v \<and> cellIsArrayType v then
             (\<exists>arr strs. v = JSObject arr \<and> jsType arr = ArrayType \<and>
                map (toWTFString h) (elements arr) = map Inr strs \<and>
                bun_argv options = Some (map isolatedCopy strs))
           else bun_argv options = None
       | None \<Rightarrow> bun_argv options = None)
      \<and> (case fst (getIfPropertyExists obj ''execArgv'') of
         Some v \<Rightarrow>
           if isCell v \<and> cellIsArrayType v then
             (\<exists>arr strs. v = JSObject arr \<and> jsType arr = ArrayType \<and>
                map (toWTFString h) (elements arr) = map Inr strs \<and>
                bun_execArgv options = Some (map isolatedCopy strs))
           else bun_execArgv options = None
       | None \<Rightarrow> bun_execArgv options = None))
   \<and> (exc s = None \<and> getIfPropertyExists obj ''argv'' = (Some given, None)
        \<and> \<not> (isCell given \<and> cellIsArrayType given) \<longrightarrow>
        construct_argv h obj s = Inr s)
   \<and> (exc s = None \<and> getIfPropertyExists obj ''execArgv'' = (Some given, None)
        \<and> \<not> (isCell given \<and> cellIsArrayType given) \<longrightarrow>
        construct_execArgv h obj s = Inr s)"
proof (intro conjI impI)
  assume "construct_options h (JSObject obj) = Inr options"
  then obtain s1 s2 s3 s4 s5 s6 s7 where st:
    "construct_name h obj \<lparr>opts = initialOptions, exc = None\<rparr> = Inr s1"
    "construct_smol obj s1 = Inr s2"
    "construct_ref obj s2 = Inr s3"
    "construct_workerData h obj s3 = Inr s4"
    "construct_env h obj s4 = Inr s5"
    "construct_argv h obj s5 = Inr s6"
    "construct_execArgv h obj s6 = Inr s7"
    "exc s7 = None" "options = opts s7"
    by (rule construct_options_stages)
  have a5: "bun_argv (opts s5) = None" "bun_execArgv (opts s5) = None"
    using construct_name_frame [OF st(1)] construct_smol_frame [OF st(2)]
      construct_ref_frame [OF st(3)] construct_workerData_frame [OF st(4)]
      construct_env_frame [OF st(5)]
    by (simp_all add: initialOptions_def)
  have e6: "exc s6 = None"
    using construct_execArgv_result [OF st(7)] by simp
  have a7: "bun_argv options = bun_argv (opts s6)"
    using construct_execArgv_frame [OF st(7)] st(9) by simp
  have x6: "bun_execArgv (opts s6) = None"
    using construct_argv_frame [OF st(6)] a5 by simp
  show "case fst (getIfPropertyExists obj ''argv'') of
         Some v \<Rightarrow>
           if isCell v \<and> cellIsArrayType v then
             (\<exists>arr strs. v = JSObject arr \<and> jsType arr = ArrayType \<and>
                map (toWTFString h) (elements arr) = map Inr strs \<and>
                bun_argv options = Some (map isolatedCopy strs))
           else bun_argv options = None
       | None \<Rightarrow> bun_argv options = None"
  proof (cases "fst (getIfPropertyExists obj ''argv'')")
    case None
    with construct_argv_result [OF st(6)] a5 a7 show ?thesis by simp
  next
    case (Some v)
    with construct_argv_result [OF st(6)] a5 a7 e6
    have "if isCell v \<and> cellIsArrayType v
           then bun_argv options = Some (fst (forEachInIterable_toStrings h v))
             \<and> snd (forEachInIterable_toStrings h v) = None
           else bun_argv options = None"
      by (auto split: if_splits)
    from captured_strings [OF this] Some show ?thesis by simp
  qed
  show "case fst (getIfPropertyExists obj ''execArgv'') of
         Some v \<Rightarrow>
           if isCell v \<and> cellIsArrayType v then
             (\<exists>arr strs. v = JSObject arr \<and> jsType arr = ArrayType \<and>
                map (toWTFString h) (elements arr) = map Inr strs \<and>
                bun_execArgv options = Some (map isolatedCopy strs))
           else bun_execArgv options = None
       | None \<Rightarrow> bun_execArgv options = None"
  proof (cases "fst (getIfPropertyExists obj ''execArgv'')")
    case None
    with construct_execArgv_result [OF st(7)] x6 st(9) show ?thesis by simp
  next
    case (Some v)
    with construct_execArgv_result [OF st(7)] x6 st(8,9)
    have "if isCell v \<and> cellIsArrayType v
           then bun_execArgv options = Some (fst (forEachInIterable_toStrings h v))
             \<and> snd (forEachInIterable_toStrings h v) = None
           else bun_execArgv options = None"
      by (auto split: if_splits)
    from captured_strings [OF this] Some show ?thesis by simp
  qed
next
  assume "exc s = None \<and> getIfPropertyExists obj ''argv'' = (Some given, None)
        \<and> \<not> (isCell given \<and> cellIsArrayType given)"
  then show "construct_argv h obj s = Inr s"
    by (auto simp: construct_argv_def RETURN_IF_EXCEPTION_def raise_def)
next
  assume "exc s = None \<and> getIfPropertyExists obj ''execArgv'' = (Some given, None)
        \<and> \<not> (isCell given \<and> cellIsArrayType given)"
  then show "construct_execArgv h obj s = Inr s"
    by (auto simp: construct_execArgv_def RETURN_IF_EXCEPTION_def raise_def)
qed

text \<open>
  On the example host: \<open>{argv: ["--verbose", true], execArgv: 5}\<close> captures the two strings
  and ignores the number; \<open>{argv: {}, execArgv: ["--smol", 12]}\<close> ignores the plain object and
  captures the two strings of \<open>execArgv\<close>.
\<close>

theorem argv_execArgv_capture_witness:
  "construct_options exampleHost (JSObject (objectOf [(''argv'', JSObject (arrayOf [JSString ''--verbose'', JSBoolean True])), (''execArgv'', JSNumber 5)])) =
     Inr (initialOptions\<lparr>bun_env := Some [''HOME'' \<mapsto> (WTFString True ''HOME'', WTFString True ''/root'')],
            bun_argv := Some [WTFString True ''--verbose'', WTFString True ''true'']\<rparr>)
   \<and> map (toWTFString exampleHost) [JSString ''--verbose'', JSBoolean True] =
       map Inr [WTFString False ''--verbose'', WTFString False ''true'']
   \<and> getIfPropertyExists (objectOf [(''argv'', JSObject (arrayOf [JSString ''--verbose'', JSBoolean True])), (''execArgv'', JSNumber 5)]) ''execArgv'' = (Some (JSNumber 5), None)
   \<and> \<not> (isCell (JSNumber 5) \<and> cellIsArrayType (JSNumber 5))
   \<and> construct_execArgv exampleHost (objectOf [(''argv'', JSObject (arrayOf [JSString ''--verbose'', JSBoolean True])), (''execArgv'', JSNumber 5)]) \<lparr>opts = initialOptions, exc = None\<rparr> =
     Inr \<lparr>opts = initialOptions, exc = None\<rparr>
   \<and> construct_options exampleHost (JSObject (objectOf [(''argv'', JSObject (objectOf [])), (''execArgv'', JSObject (arrayOf [JSString ''--smol'', JSNumber 12]))])) =
     Inr (initialOptions\<lparr>bun_env := Some [''HOME'' \<mapsto> (WTFString True ''HOME'', WTFString True ''/root'')],
            bun_execArgv := Some [WTFString True ''--smol'', WTFString True ''12'']\<rparr>)
   \<and> map (toWTFString exampleHost) [JSString ''--smol'', JSNumber 12] =
       map Inr [WTFString False ''--smol'', WTFString False ''12'']
   \<and> getIfPropertyExists (objectOf [(''argv'', JSObject (objectOf [])), (''execArgv'', JSObject (arrayOf [JSString ''--smol'', JSNumber 12]))]) ''argv'' = (Some (JSObject (objectOf [])), None)
   \<and> \<not> (isCell (JSObject (objectOf [])) \<and> cellIsArrayType (JSObject (objectOf [])))
   \<and> construct_argv exampleHost (objectOf [(''argv'', JSObject (objectOf [])), (''execArgv'', JSObject (arrayOf [JSString ''--smol'', JSNumber 12]))]) \<lparr>opts = initialOptions, exc = None\<rparr> =
       Inr \<lparr>opts = initialOptions, exc = None\<rparr>"
  using
    argv_execArgv_capture [where h = exampleHost and obj = "objectOf [(''argv'', JSObject (arrayOf [JSString ''--verbose'', JSBoolean True])), (''execArgv'', JSNumber 5)]"
      and options = "initialOptions\<lparr>bun_env := Some [''HOME'' \<mapsto> (WTFString True ''HOME'', WTFString True ''/root'')],
            bun_argv := Some [WTFString True ''--verbose'', WTFString True ''true'']\<rparr>"
      and s = "\<lparr>opts = initialOptions, exc = None\<rparr>" and given = "JSNumber 5"]
    argv_execArgv_capture [where h = exampleHost and obj = "objectOf [(''argv'', JSObject (objectOf [])), (''execArgv'', JSObject (arrayOf [JSString ''--smol'', JSNumber 12]))]"
      and options = "initialOptions\<lparr>bun_env := Some [''HOME'' \<mapsto> (WTFString True ''HOME'', WTFString True ''/root'')],
            bun_execArgv := Some [WTFString True ''--smol'', WTFString True ''12'']\<rparr>"
      and s = "\<lparr>opts = initialOptions, exc = None\<rparr>" and given = "JSObject (objectOf [])"]
  by (simp add: construct_eval)

text \<open>
  Claim C10. A \<open>transferList\<close> value that is not an array gives the empty transfer list, and
  an array gives its elements that are objects, in order, the others being skipped; neither
  raises an exception, and the payload is serialized with the list so built.
\<close>

theorem transferList_lenient:
  "(getIfPropertyExists obj ''transferList'' = (Some transferListValue, None)
      \<and> (\<forall>arr. transferListValue = JSObject arr \<longrightarrow>
             jsType arr \<noteq> ArrayType \<and> jsType arr \<noteq> DerivedArrayType) \<longrightarrow>
      construct_transferList obj = ([], None))
   \<and> (getIfPropertyExists obj ''transferList'' = (Some (JSObject arr), None)
      \<and> (jsType arr = ArrayType \<or> jsType arr = DerivedArrayType) \<longrightarrow>
      construct_transferList obj = (filter isObject (elements arr), None))
   \<and> (exc s = None
      \<and> snd (getIfPropertyExists obj ''workerData'') = None
      \<and> snd (getIfPropertyExists obj ''data'') = None
      \<and> snd (getIfPropertyExists obj ''transferList'') = None
      \<and> fst (construct_lookupWorkerData obj None) = Some workerData \<longrightarrow>
      construct_workerData h obj s =
        construct_serialize h workerData (fst (construct_transferList obj)) s)"
proof -
  have a: "construct_transferList obj = ([], None)"
    if "getIfPropertyExists obj ''transferList'' = (Some transferListValue, None)"
      and "\<forall>arr. transferListValue = JSObject arr \<longrightarrow>
             jsType arr \<noteq> ArrayType \<and> jsType arr \<noteq> DerivedArrayType"
    using that
    by (cases transferListValue)
      (simp_all add: construct_transferList_def jsDynamicCast_JSArray_def)
  have b: "construct_transferList obj = (filter isObject (elements arr), None)"
    if "getIfPropertyExists obj ''transferList'' = (Some (JSObject arr), None)"
      and "jsType arr = ArrayType \<or> jsType arr = DerivedArrayType"
    using that
    by (auto simp: construct_transferList_def jsDynamicCast_JSArray_def
        appendTransferList_filter)
  from a b construct_workerData_serialize [of s obj workerData h]
  show ?thesis by blast
qed

text \<open>
  On the example host: \<open>{workerData: "x", transferList: 5}\<close> and
  \<open>{workerData: "x", transferList: [{}, 3]}\<close>.
\<close>

theorem transferList_lenient_witness:
  "getIfPropertyExists (objectOf [(''workerData'', JSString ''x''), (''transferList'', JSNumber 5)])
       ''transferList'' = (Some (JSNumber 5), None)
   \<and> construct_transferList
       (objectOf [(''workerData'', JSString ''x''), (''transferList'', JSNumber 5)]) = ([], None)
   \<and> construct_workerData exampleHost
       (objectOf [(''workerData'', JSString ''x''), (''transferList'', JSNumber 5)])
       \<lparr>opts = initialOptions, exc = None\<rparr> =
     Inr \<lparr>opts = initialOptions\<lparr>bun_data := Some []\<rparr>, exc = None\<rparr>
   \<and> getIfPropertyExists
       (objectOf [(''workerData'', JSString ''x''),
          (''transferList'', JSObject (arrayOf [JSObject (objectOf []), JSNumber 3]))])
       ''transferList'' = (Some (JSObject (arrayOf [JSObject (objectOf []), JSNumber 3])), None)
   \<and> jsType (arrayOf [JSObject (objectOf []), JSNumber 3]) = ArrayType
   \<and> construct_transferList
       (objectOf [(''workerData'', JSString ''x''),
          (''transferList'', JSObject (arrayOf [JSObject (objectOf []), JSNumber 3]))]) =
     ([JSObject (objectOf [])], None)"
  using
    transferList_lenient [where h = exampleHost
      and obj = "objectOf [(''workerData'', JSString ''x''), (''transferList'', JSNumber 5)]"
      and transferListValue = "JSNumber 5" and arr = "arrayOf []"
      and s = "\<lparr>opts = initialOptions, exc = None\<rparr>" and workerData = "JSString ''x''"]
    transferList_lenient [where h = exampleHost
      and obj = "objectOf [(''workerData'', JSString ''x''),
          (''transferList'', JSObject (arrayOf [JSObject (objectOf []), JSNumber 3]))]"
      and transferListValue = "JSObject (arrayOf [JSObject (objectOf []), JSNumber 3])"
      and arr = "arrayOf [JSObject (objectOf []), JSNumber 3]"
      and s = "\<lparr>opts = initialOptions, exc = None\<rparr>" and workerData = "JSString ''x''"]
  by (simp add: construct_eval)

end
